theory Spec2Isabelle
  imports Main
begin

section \<open>The streaming core of CapitalA.py\<close>

text \<open>
  The development embeds the WebSocket part of the class \<^verbatim>\<open>CapitalComAPI\<close>
  (\<^verbatim>\<open>src/CapitalA.py\<close>): the subscription dictionary, the callbacks
  \<^verbatim>\<open>_ws_on_message\<close>, \<^verbatim>\<open>_ws_on_open\<close>, \<^verbatim>\<open>_ws_on_close\<close>,
  the reconnect loop \<^verbatim>\<open>_ws_run\<close> and the public operations
  \<^verbatim>\<open>subscribe_to_epic_data\<close>, \<^verbatim>\<open>unsubscribe_from_epic_data\<close> and
  \<^verbatim>\<open>stop_all_websocket_subscriptions\<close>.

  Every method is a function from the object's state to its state at exit. What a method
  does to the outside world is recorded in trace fields of the state: the frames handed to
  \<^verbatim>\<open>send\<close>, the subscriber callbacks invoked, the calls of \<^verbatim>\<open>close\<close>, the
  connections opened, the backoff waits and the log. What the outside world decides (the
  clock, the callbacks the transport delivers, whether a join ends in time, a stop signal
  raised by another thread) is an argument of the function.
\<close>

subsection \<open>Enumerations\<close>

datatype HistoricalPriceResolution =
  MINUTE | MINUTE_5 | MINUTE_10 | MINUTE_15 | MINUTE_30
  | HOUR | HOUR_2 | HOUR_3 | HOUR_4 | DAY | WEEK | MONTH

datatype WebSocketStatus = DISCONNECTED | CONNECTING | CONNECTED | STOPPING

datatype WebsocketDataType = MARKET | OHLC

datatype OhlcBarType = CLASSIC | HEIKIN_ASHI

text \<open>The \<^verbatim>\<open>.value\<close> of each enumeration member.\<close>

fun resolution_value :: "HistoricalPriceResolution \<Rightarrow> string" where
  "resolution_value MINUTE = ''MINUTE''"
| "resolution_value MINUTE_5 = ''MINUTE_5''"
| "resolution_value MINUTE_10 = ''MINUTE_10''"
| "resolution_value MINUTE_15 = ''MINUTE_15''"
| "resolution_value MINUTE_30 = ''MINUTE_30''"
| "resolution_value HOUR = ''HOUR''"
| "resolution_value HOUR_2 = ''HOUR_2''"
| "resolution_value HOUR_3 = ''HOUR_3''"
| "resolution_value HOUR_4 = ''HOUR_4''"
| "resolution_value DAY = ''DAY''"
| "resolution_value WEEK = ''WEEK''"
| "resolution_value MONTH = ''MONTH''"

fun data_type_value :: "WebsocketDataType \<Rightarrow> string" where
  "data_type_value MARKET = ''MARKET''"
| "data_type_value OHLC = ''OHLC''"

fun bar_type_value :: "OhlcBarType \<Rightarrow> string" where
  "bar_type_value CLASSIC = ''classic''"
| "bar_type_value HEIKIN_ASHI = ''heikin-ashi''"

subsection \<open>Python values\<close>

text \<open>
  A decoded JSON value. A float is carried by the text Python prints for it
  (\<^verbatim>\<open>repr\<close>), which determines both its rendering and whether it is zero. An
  object is its list of members in the dictionary's order.
\<close>

datatype json =
  JNull | JBool bool | JInt int | JFloat string | JStr string
  | JArr "json list" | JObj "(string \<times> json) list"

text \<open>Python's truth value of a decoded JSON value.\<close>

fun truthy :: "json \<Rightarrow> bool" where
  "truthy JNull = False"
| "truthy (JBool b) = b"
| "truthy (JInt i) = (i \<noteq> 0)"
| "truthy (JFloat r) = (r \<noteq> ''0.0'' \<and> r \<noteq> ''-0.0'')"
| "truthy (JStr s) = (s \<noteq> [])"
| "truthy (JArr xs) = (xs \<noteq> [])"
| "truthy (JObj kvs) = (kvs \<noteq> [])"

text \<open>Truth value of an optional string: \<^verbatim>\<open>None\<close> and the empty string are false.\<close>

fun truthy_str :: "string option \<Rightarrow> bool" where
  "truthy_str None = False"
| "truthy_str (Some s) = (s \<noteq> [])"

text \<open>\<^verbatim>\<open>d.get(k)\<close> on a dictionary: the value, or \<^verbatim>\<open>None\<close>.\<close>

definition dict_get :: "(string \<times> json) list \<Rightarrow> string \<Rightarrow> json" where
  "dict_get kvs k = (case map_of kvs k of None \<Rightarrow> JNull | Some v \<Rightarrow> v)"

text \<open>Decimal rendering of an integer, as \<^verbatim>\<open>str\<close> gives it.\<close>

fun str_nat :: "nat \<Rightarrow> string" where
  "str_nat n =
     (if n < 10 then [''0123456789'' ! n]
      else str_nat (n div 10) @ [''0123456789'' ! (n mod 10)])"

declare str_nat.simps [simp del]

definition str_int :: "int \<Rightarrow> string" where
  "str_int i = (if i < 0 then CHR ''-'' # str_nat (nat (- i)) else str_nat (nat i))"

text \<open>
  The text an f-string inserts for a value. Scalars are rendered as Python renders them;
  the rendering of an array or an object is the argument \<open>fmt\<close>, about which nothing is
  assumed.
\<close>

fun py_str :: "(json \<Rightarrow> string) \<Rightarrow> json \<Rightarrow> string" where
  "py_str fmt JNull = ''None''"
| "py_str fmt (JBool b) = (if b then ''True'' else ''False'')"
| "py_str fmt (JInt i) = str_int i"
| "py_str fmt (JFloat r) = r"
| "py_str fmt (JStr s) = s"
| "py_str fmt (JArr xs) = fmt (JArr xs)"
| "py_str fmt (JObj kvs) = fmt (JObj kvs)"

text \<open>An optional string inside an f-string.\<close>

fun opt_str :: "string option \<Rightarrow> string" where
  "opt_str None = ''None''"
| "opt_str (Some s) = s"

subsection \<open>The object's state\<close>

text \<open>One value of the dictionary \<^verbatim>\<open>_ws_subscriptions\<close>. A callback is known by a number.\<close>

record sub_info =
  callback :: "nat option"
  epic :: string
  data_type :: WebsocketDataType
  resolution :: "HistoricalPriceResolution option"
  bar_type :: "OhlcBarType option"
  active :: bool

text \<open>The \<^verbatim>\<open>payload\<close> of a control frame and the frame itself.\<close>

record payload_data =
  epics :: "string list"
  resolutions :: "string list option"
  type_value :: "string option"
  types :: "string list option"

record control_frame =
  destination :: string
  correlationId :: string
  frame_cst :: "string option"
  securityToken :: "string option"
  payload :: payload_data

datatype level = DEBUG | INFO | WARNING | ERROR

text \<open>
  The fields of the object that the streaming code reads or writes, followed by the
  traces. A thread field is \<open>None\<close> when the attribute is \<^verbatim>\<open>None\<close> and
  \<open>Some b\<close> when it holds a thread whose \<^verbatim>\<open>is_alive()\<close> is \<open>b\<close>. The dictionary is
  a list of pairs in insertion order. A log entry is the level and the fixed leading
  text of the message.
\<close>

record state =
  cst :: "string option"
  x_security_token :: "string option"
  ws_thread :: "bool option"
  ws_connection :: bool
  ws_subscriptions :: "(string \<times> sub_info) list"
  ws_stop_event :: bool
  ws_reconnect_attempts :: nat
  ws_status :: WebSocketStatus
  ws_ping_thread :: "bool option"
  ws_ping_stop_event :: bool
  sent :: "control_frame list"
  calls :: "(nat \<times> (string \<times> json) list) list"
  closes :: nat
  connects :: "string list"
  backoffs :: "(nat \<times> nat) list"
  logged :: "(level \<times> string) list"

text \<open>The constants set by \<^verbatim>\<open>__init__\<close> and the state it leaves.\<close>

definition ws_max_reconnect_attempts :: nat where
  "ws_max_reconnect_attempts = 10"

definition ws_initial_reconnect_delay :: nat where
  "ws_initial_reconnect_delay = 5"

definition ws_max_reconnect_delay :: nat where
  "ws_max_reconnect_delay = 60"

definition ws_base_url :: string where
  "ws_base_url = ''wss://api-streaming-capital.backend-capital.com/connect''"

definition init_state :: state where
  "init_state = \<lparr> cst = None, x_security_token = None, ws_thread = None,
     ws_connection = False, ws_subscriptions = [], ws_stop_event = False,
     ws_reconnect_attempts = 0, ws_status = DISCONNECTED, ws_ping_thread = None,
     ws_ping_stop_event = False, sent = [], calls = [], closes = 0, connects = [],
     backoffs = [], logged = [] \<rparr>"

text \<open>
  The outside world as a public operation meets it. \<open>clock e n\<close> is the value of
  \<^verbatim>\<open>int(time.time())\<close> when the operation builds its \<open>n\<close>-th frame, counted from
  zero along the entries it walks through.
\<close>

record env =
  clock :: "nat \<Rightarrow> int"
  ws_join_in_time :: bool
  ping_join_in_time :: bool

subsection \<open>Small steps shared by the methods\<close>

definition logger :: "level \<Rightarrow> string \<Rightarrow> state \<Rightarrow> state" where
  "logger l m s = s\<lparr>logged := logged s @ [(l, m)]\<rparr>"

definition tokens_present :: "state \<Rightarrow> bool" where
  "tokens_present s = (truthy_str (cst s) \<and> truthy_str (x_security_token s))"

text \<open>
  \<^verbatim>\<open>send(json.dumps(msg))\<close> on the connection: the frame handed over is recorded.
  Where the source calls \<^verbatim>\<open>send\<close>, \<^verbatim>\<open>close\<close> or a subscriber's callback, what
  the call raises is caught (by the source, or by the transport running the callback) and
  logged; that log entry is the only effect of such an exception and is left out of the
  log kept here.
\<close>

definition ws_send :: "control_frame \<Rightarrow> state \<Rightarrow> state" where
  "ws_send f s = s\<lparr>sent := sent s @ [f]\<rparr>"

text \<open>\<^verbatim>\<open>close()\<close> on the connection.\<close>

definition ws_close :: "state \<Rightarrow> state" where
  "ws_close s = s\<lparr>closes := Suc (closes s)\<rparr>"

text \<open>\<^verbatim>\<open>t and t.is_alive()\<close> for a thread field.\<close>

fun thread_alive :: "bool option \<Rightarrow> bool" where
  "thread_alive None = False"
| "thread_alive (Some b) = b"

text \<open>Assignment to a key of the dictionary, and \<^verbatim>\<open>pop(key, None)\<close>.\<close>

fun dict_set :: "string \<Rightarrow> 'v \<Rightarrow> (string \<times> 'v) list \<Rightarrow> (string \<times> 'v) list" where
  "dict_set k v [] = [(k, v)]"
| "dict_set k v (p # ps) = (if fst p = k then (k, v) # ps else p # dict_set k v ps)"

definition dict_pop :: "string \<Rightarrow> (string \<times> 'v) list \<Rightarrow> (string \<times> 'v) list" where
  "dict_pop k ps = filter (\<lambda>p. fst p \<noteq> k) ps"

subsection \<open>Canonical stream keys\<close>

text \<open>The key and control destination computed by the subscribe and unsubscribe side.\<close>

definition market_key :: "string \<Rightarrow> string" where
  "market_key e = ''/market/'' @ e"

definition ohlc_key :: "string \<Rightarrow> string \<Rightarrow> string \<Rightarrow> string" where
  "ohlc_key e r b = ''/ohlc/'' @ e @ ''/'' @ r @ ''/'' @ b"

subsection \<open>Starting and stopping the supervisor thread\<close>

text \<open>
  \<^verbatim>\<open>_start_websocket_thread\<close>. The new thread runs \<open>ws_run\<close> below; here only the
  fields written before \<^verbatim>\<open>start()\<close> change. The method returns \<^verbatim>\<open>True\<close> on
  every path.
\<close>

definition start_websocket_thread :: "state \<Rightarrow> state \<times> bool" where
  "start_websocket_thread s =
     (let s1 = (if thread_alive (ws_thread s)
                then logger INFO ''WebSocket thread already running.'' s else s)
      in if thread_alive (ws_thread s) \<and> ws_status s = CONNECTED then (s1, True)
         else
           let s2 = (if \<not> truthy_str (cst s1) \<or> \<not> truthy_str (x_security_token s1)
                     then logger INFO ''CST/XST tokens not immediately available for WS start.'' s1
                     else s1);
               s3 = s2\<lparr>ws_stop_event := False, ws_ping_stop_event := False,
                       ws_reconnect_attempts := 0, ws_status := CONNECTING,
                       ws_thread := Some True\<rparr>
           in (logger INFO ''WebSocket thread started/starting.'' s3, True))"

text \<open>
  \<^verbatim>\<open>_stop_websocket_thread\<close>. The two joins are bounded waits; whether each ends in
  time is the environment's, and decides a log entry only.
\<close>

definition stop_websocket_thread :: "env \<Rightarrow> state \<Rightarrow> state" where
  "stop_websocket_thread e s =
     (if ws_status s = DISCONNECTED \<and> \<not> thread_alive (ws_thread s) then
        let s1 = logger INFO ''WebSocket thread already stopped or was never meaningfully started.'' s;
            s2 = (if thread_alive (ws_ping_thread s1) then s1\<lparr>ws_ping_stop_event := True\<rparr> else s1)
        in s2\<lparr>ws_ping_thread := None\<rparr>
      else
        let s1 = logger INFO ''Attempting to stop WebSocket thread and application ping thread...'' s;
            s2 = s1\<lparr>ws_status := STOPPING, ws_stop_event := True, ws_ping_stop_event := True\<rparr>;
            s3 = (if ws_connection s2
                  then ws_close (logger DEBUG ''Actively closing WebSocket connection from _stop_websocket_thread.'' s2)
                  else s2);
            s4 = (if thread_alive (ws_thread s3) then
                    (if ws_join_in_time e
                     then logger INFO ''WebSocket main thread joined successfully.''
                     else logger WARNING ''WebSocket main thread did not stop in the allocated time.'')
                      (logger DEBUG ''Waiting for WebSocket main thread to join...'' s3)
                  else s3);
            s5 = (if thread_alive (ws_ping_thread s4) then
                    (if ping_join_in_time e
                     then logger INFO ''WebSocket application ping thread joined successfully.''
                     else logger WARNING ''WebSocket application ping thread did not stop.'')
                      (logger DEBUG ''Waiting for WebSocket application ping thread to join...'' s4)
                  else s4)
        in logger INFO ''WebSocket thread and related processes stopped.''
             (s5\<lparr>ws_thread := None, ws_connection := False, ws_ping_thread := None,
                 ws_status := DISCONNECTED\<rparr>))"

subsection \<open>The public operations\<close>

text \<open>
  A public operation returns the state at its exit and the exception it raised, if any.
\<close>

datatype error = ValueError string

text \<open>
  \<^verbatim>\<open>subscribe_to_epic_data\<close>, from the dictionary update to the end: the part after
  the key, the control destination and the payload have been computed.
\<close>

definition subscribe_registered ::
  "state \<Rightarrow> string \<Rightarrow> string \<Rightarrow> payload_data \<Rightarrow> string \<Rightarrow> WebsocketDataType \<Rightarrow> nat \<Rightarrow>
   HistoricalPriceResolution option \<Rightarrow> OhlcBarType \<Rightarrow> int \<Rightarrow> state" where
  "subscribe_registered s stream_destination_key control_destination_api payload_data
       ep dt cb res bt now =
     (let s1 = (if (case map_of (ws_subscriptions s) stream_destination_key of
                      None \<Rightarrow> False | Some i \<Rightarrow> active i)
                then logger WARNING ''Already subscribed or subscription pending. Updating callback if different.'' s
                else s);
          s2 = s1\<lparr>ws_subscriptions :=
                    dict_set stream_destination_key
                      \<lparr>callback = Some cb, epic = ep, data_type = dt, resolution = res,
                       bar_type = Some bt, active = True\<rparr>
                      (ws_subscriptions s1)\<rparr>;
          s3 = logger INFO ''Subscription queued/updated.'' s2
      in case start_websocket_thread s3 of (s4, started) \<Rightarrow>
         if \<not> started then
           logger ERROR ''WebSocket thread could not be started. Subscription is queued but won't be sent yet.'' s4
         else if ws_status s4 = CONNECTED \<and> ws_connection s4 then
           ws_send
             \<lparr>destination = control_destination_api,
              correlationId =
                ''sub-'' @ ep @ ''-'' @ data_type_value dt @ ''-''
                @ (case res of None \<Rightarrow> [] | Some r \<Rightarrow> resolution_value r) @ ''-''
                @ (if dt = OHLC then bar_type_value bt else []) @ ''-'' @ str_int now,
              frame_cst = cst s4, securityToken = x_security_token s4,
              payload = payload_data\<rparr>
             (logger INFO ''Sending subscription request'' s4)
         else if ws_status s4 = CONNECTING then
           logger INFO ''WebSocket is currently connecting. Subscription is queued and will be handled by on_open handler upon connection.'' s4
         else
           logger WARNING ''Subscription is queued. Ensure WebSocket connects/restarts for it to be processed.'' s4)"

definition subscribe_to_epic_data ::
  "state \<Rightarrow> string \<Rightarrow> WebsocketDataType \<Rightarrow> nat \<Rightarrow> HistoricalPriceResolution option \<Rightarrow>
   OhlcBarType \<Rightarrow> int \<Rightarrow> state \<times> error option" where
  "subscribe_to_epic_data s ep dt cb res bt now =
     (if \<not> truthy_str (cst s) \<or> \<not> truthy_str (x_security_token s) then
        (logger ERROR ''Cannot subscribe: API not logged in (CST/XST missing). Please login first.'' s, None)
      else
        case dt of
          MARKET \<Rightarrow>
            (subscribe_registered s (market_key ep) ''marketData.subscribe''
               \<lparr>epics = [ep], resolutions = None, type_value = None, types = None\<rparr>
               ep dt cb res bt now, None)
        | OHLC \<Rightarrow>
            (case res of
               None \<Rightarrow>
                 (s, Some (ValueError ''Resolution must be provided for OHLC data type subscription.''))
             | Some r \<Rightarrow>
                 (subscribe_registered s
                    (ohlc_key ep (resolution_value r) (bar_type_value bt))
                    ''OHLCMarketData.subscribe''
                    \<lparr>epics = [ep], resolutions = Some [resolution_value r],
                     type_value = Some (bar_type_value bt), types = None\<rparr>
                    ep dt cb res bt now, None)))"

text \<open>
  \<^verbatim>\<open>unsubscribe_from_epic_data\<close> after the key, the control destination and the
  payload have been computed, in two parts: \<open>unsubscribe_local\<close> is the \<^verbatim>\<open>pop\<close> and
  the frame sent for a record that was there; \<open>unsubscribe_registered\<close> adds the last
  lines, which stop the thread when the dictionary is empty.
\<close>

definition unsubscribe_local ::
  "env \<Rightarrow> state \<Rightarrow> string \<Rightarrow> string \<Rightarrow> payload_data \<Rightarrow> string \<Rightarrow> WebsocketDataType \<Rightarrow>
   HistoricalPriceResolution option \<Rightarrow> OhlcBarType \<Rightarrow> state" where
  "unsubscribe_local e s stream_destination_key control_destination_api
       unsubscribe_payload ep dt res bt =
     (let sub_info_popped = map_of (ws_subscriptions s) stream_destination_key;
          s1 = s\<lparr>ws_subscriptions := dict_pop stream_destination_key (ws_subscriptions s)\<rparr>
      in case sub_info_popped of
           Some i \<Rightarrow>
             (let s1a = logger INFO ''Locally removed/marked inactive subscription tracking.'' s1
              in if ws_status s1a = CONNECTED \<and> ws_connection s1a
                    \<and> truthy_str (cst s1a) \<and> truthy_str (x_security_token s1a)
                 then
                   ws_send
                     \<lparr>destination = control_destination_api,
                      correlationId =
                        ''unsub-'' @ ep @ ''-'' @ data_type_value dt @ ''-''
                        @ (case res of None \<Rightarrow> [] | Some r \<Rightarrow> resolution_value r) @ ''-''
                        @ (if dt = OHLC then bar_type_value bt else []) @ ''-''
                        @ str_int (clock e 0),
                      frame_cst = cst s1a, securityToken = x_security_token s1a,
                      payload = unsubscribe_payload\<rparr>
                     (logger INFO ''Sending unsubscribe request to server.'' s1a)
                 else
                   logger INFO ''Unsubscribed locally. WebSocket not in a state to send server message.'' s1a)
         | None \<Rightarrow>
             logger WARNING ''No active subscription found locally to unsubscribe.'' s1)"

definition unsubscribe_registered ::
  "env \<Rightarrow> state \<Rightarrow> string \<Rightarrow> string \<Rightarrow> payload_data \<Rightarrow> string \<Rightarrow> WebsocketDataType \<Rightarrow>
   HistoricalPriceResolution option \<Rightarrow> OhlcBarType \<Rightarrow> state" where
  "unsubscribe_registered e s stream_destination_key control_destination_api
       unsubscribe_payload ep dt res bt =
     (let s2 = unsubscribe_local e s stream_destination_key control_destination_api
                 unsubscribe_payload ep dt res bt
      in if ws_subscriptions s2 = [] \<and> ws_status s2 \<noteq> DISCONNECTED \<and> ws_status s2 \<noteq> STOPPING
         then stop_websocket_thread e
                (logger INFO ''No active WebSocket subscriptions remaining. Stopping WebSocket thread.'' s2)
         else s2)"

definition unsubscribe_from_epic_data ::
  "env \<Rightarrow> state \<Rightarrow> string \<Rightarrow> WebsocketDataType \<Rightarrow> HistoricalPriceResolution option \<Rightarrow>
   OhlcBarType \<Rightarrow> state \<times> error option" where
  "unsubscribe_from_epic_data e s ep dt res bt =
     (case dt of
        MARKET \<Rightarrow>
          (unsubscribe_registered e s (market_key ep) ''marketData.unsubscribe''
             \<lparr>epics = [ep], resolutions = None, type_value = None, types = None\<rparr>
             ep dt res bt, None)
      | OHLC \<Rightarrow>
          (case res of
             None \<Rightarrow>
               (s, Some (ValueError ''Resolution must be provided for OHLC data type unsubscription to identify the correct stream.''))
           | Some r \<Rightarrow>
               (unsubscribe_registered e s
                  (ohlc_key ep (resolution_value r) (bar_type_value bt))
                  ''OHLCMarketData.unsubscribe''
                  \<lparr>epics = [ep], resolutions = Some [resolution_value r],
                   type_value = None, types = Some [bar_type_value bt]\<rparr>
                  ep dt res bt, None)))"

text \<open>
  \<^verbatim>\<open>stop_all_websocket_subscriptions\<close>: one captured entry of the dictionary is sent
  as an unsubscribe frame by \<open>stop_all_send\<close>.
\<close>

definition stop_all_send :: "env \<Rightarrow> nat \<times> string \<times> sub_info \<Rightarrow> state \<Rightarrow> state" where
  "stop_all_send e item s =
     (let i = snd (snd item);
          full = (data_type i = OHLC \<and> resolution i \<noteq> None \<and> bar_type i \<noteq> None);
          s1 = (if data_type i = OHLC \<and> \<not> full
                then logger WARNING ''OHLC resolution/type missing during stop_all; sending generic epic unsubscribe.'' s
                else s)
      in logger DEBUG ''Sent server unsubscribe''
           (ws_send
              \<lparr>destination =
                 (case data_type i of MARKET \<Rightarrow> ''marketData.unsubscribe''
                  | OHLC \<Rightarrow> ''OHLCMarketData.unsubscribe''),
               correlationId =
                 ''unsub-all-'' @ epic i @ ''-'' @ data_type_value (data_type i) @ ''-''
                 @ str_int (clock e (fst item)),
               frame_cst = cst s1, securityToken = x_security_token s1,
               payload =
                 \<lparr>epics = [epic i],
                  resolutions = (if full then map_option (\<lambda>r. [resolution_value r]) (resolution i) else None),
                  type_value = None,
                  types = (if full then map_option (\<lambda>b. [bar_type_value b]) (bar_type i) else None)\<rparr>\<rparr>
              s1))"

definition stop_all_websocket_subscriptions :: "env \<Rightarrow> state \<Rightarrow> state" where
  "stop_all_websocket_subscriptions e s =
     (let s0 = logger INFO ''Stopping all WebSocket subscriptions and initiating WebSocket thread shutdown...'' s;
          destinations_to_unsubscribe_server = ws_subscriptions s0;
          s1 = (if ws_subscriptions s0 = []
                then logger INFO ''No local WebSocket subscriptions to clear or send unsubscribe messages for.'' s0
                else logger DEBUG ''Cleared all local WebSocket subscription tracking entries.''
                       (s0\<lparr>ws_subscriptions := []\<rparr>));
          s2 = (if ws_status s1 = CONNECTED \<and> ws_connection s1
                   \<and> truthy_str (cst s1) \<and> truthy_str (x_security_token s1)
                then
                  (if destinations_to_unsubscribe_server \<noteq> []
                   then fold (stop_all_send e) (enumerate 0 destinations_to_unsubscribe_server)
                          (logger INFO ''Sending server unsubscribe messages.'' s1)
                   else logger INFO ''No subscriptions were active to send unsubscribe messages for during stop_all.'' s1)
                else
                  (if destinations_to_unsubscribe_server \<noteq> []
                   then logger INFO ''WebSocket not connected or tokens missing; server unsubscribe messages not sent during stop_all. Local subscriptions cleared.'' s1
                   else s1))
      in logger INFO ''All WebSocket subscriptions processed for stopping, and WebSocket thread shutdown initiated/confirmed.''
           (stop_websocket_thread e s2))"

subsection \<open>The callbacks of the connection\<close>

text \<open>\<^verbatim>\<open>needle in text\<close> on two strings.\<close>

fun contains :: "string \<Rightarrow> string \<Rightarrow> bool" where
  "contains p [] = (p = [])"
| "contains p (c # cs) = (take (length p) (c # cs) = p \<or> contains p cs)"

text \<open>
  The key \<^verbatim>\<open>_ws_on_message\<close> derives from a frame's destination and from a payload
  that has the member \<^verbatim>\<open>epic\<close>; \<open>None\<close> when it leaves the key unset.
\<close>

definition stream_destination_key_for_lookup ::
  "(json \<Rightarrow> string) \<Rightarrow> json \<Rightarrow> (string \<times> json) list \<Rightarrow> string option" where
  "stream_destination_key_for_lookup fmt server_destination pl =
     (if server_destination = JStr ''quote'' then
        Some (''/market/'' @ py_str fmt (dict_get pl ''epic''))
      else if server_destination = JStr ''ohlc.event'' then
        (let res = dict_get pl ''resolution'';
             bar = (case map_of pl ''type'' of None \<Rightarrow> JStr ''classic'' | Some v \<Rightarrow> v)
         in if truthy res then
              Some (''/ohlc/'' @ py_str fmt (dict_get pl ''epic'') @ ''/'' @ py_str fmt res
                    @ ''/'' @ py_str fmt bar)
            else None)
      else None)"

text \<open>
  The branch of \<^verbatim>\<open>_ws_on_message\<close> for a payload \<open>pl\<close> with the member
  \<^verbatim>\<open>epic\<close>. The subscriber's callback is invoked with the payload; an exception it
  raises is caught there and logged, and changes nothing else.
\<close>

definition route_data ::
  "(json \<Rightarrow> string) \<Rightarrow> (string \<times> json) list \<Rightarrow> (string \<times> json) list \<Rightarrow> state \<Rightarrow> state" where
  "route_data fmt msg pl s =
     (let server_destination = dict_get msg ''destination'';
          s1 = (if server_destination = JStr ''ohlc.event'' \<and> \<not> truthy (dict_get pl ''resolution'')
                then logger WARNING ''OHLC message missing resolution in payload'' s else s)
      in case stream_destination_key_for_lookup fmt server_destination pl of
           Some k \<Rightarrow>
             (case map_of (ws_subscriptions s1) k of
                Some i \<Rightarrow>
                  (if active i then
                     (case callback i of
                        Some cb \<Rightarrow> s1\<lparr>calls := calls s1 @ [(cb, pl)]\<rparr>
                      | None \<Rightarrow> s1)
                   else s1)
              | None \<Rightarrow> logger DEBUG ''No active subscription found for stream key'' s1)
         | None \<Rightarrow>
             (if server_destination = JStr ''ping'' then
                (if dict_get msg ''status'' = JStr ''OK''
                 then logger INFO ''Application-level WebSocket PONG received'' s1
                 else logger WARNING ''Application-level WebSocket PING response with unexpected status'' s1)
              else logger DEBUG ''Data message received, but no specific handler'' s1))"

definition general_error :: "state \<Rightarrow> state" where
  "general_error s = logger ERROR ''General error processing WebSocket message'' s"

definition unprocessed :: "state \<Rightarrow> state" where
  "unprocessed s =
     logger DEBUG ''Unprocessed WebSocket message (format/type not recognized or no handler)'' s"

text \<open>
  \<^verbatim>\<open>_ws_on_message\<close> from the line that reads the destination. A truthy payload that
  is not a dictionary makes \<^verbatim>\<open>"epic" in payload\<close> or \<^verbatim>\<open>payload["epic"]\<close>
  raise, which the handler's last \<^verbatim>\<open>except\<close> catches.
\<close>

definition route :: "(json \<Rightarrow> string) \<Rightarrow> (string \<times> json) list \<Rightarrow> state \<Rightarrow> state" where
  "route fmt msg s =
     (let pl = dict_get msg ''payload''
      in if truthy pl then
           (case pl of
              JObj members \<Rightarrow>
                (if map_of members ''epic'' \<noteq> None then route_data fmt msg members s
                 else unprocessed s)
            | JStr t \<Rightarrow> (if contains ''epic'' t then general_error s else unprocessed s)
            | JArr xs \<Rightarrow> (if JStr ''epic'' \<in> set xs then general_error s else unprocessed s)
            | _ \<Rightarrow> general_error s)
         else unprocessed s)"

text \<open>
  What \<^verbatim>\<open>json.loads\<close> makes of the text received: the decoded value, the exception
  \<^verbatim>\<open>JSONDecodeError\<close>, or another exception (a text nested too deeply, bytes that
  are not valid UTF-8).
\<close>

datatype loaded = Loaded json | JSONDecodeError | LoadFailure

text \<open>
  \<^verbatim>\<open>_ws_on_message\<close>. \<^verbatim>\<open>JSONDecodeError\<close> has an \<^verbatim>\<open>except\<close> clause of its own;
  any other exception reaches the last one. A decoded value that is not an object has no
  \<^verbatim>\<open>get\<close>, and neither has a payload that is not an object: both raise into the last
  \<^verbatim>\<open>except\<close>.
\<close>

definition auth_failure_code :: string where
  "auth_failure_code = ''exceptions.security.authentication-failure''"

definition ws_on_message :: "(json \<Rightarrow> string) \<Rightarrow> loaded \<Rightarrow> state \<Rightarrow> state" where
  "ws_on_message fmt m s =
     (case m of
        JSONDecodeError \<Rightarrow> logger WARNING ''WebSocket received non-JSON message'' s
      | LoadFailure \<Rightarrow> general_error s
      | Loaded v \<Rightarrow>
          (let s0 = logger DEBUG ''WebSocket received message'' s
           in case v of
                JObj msg \<Rightarrow>
                  (if truthy (dict_get msg ''errorCode'') then
                     (let s1 = logger ERROR ''WebSocket error from server'' s0
                      in if dict_get msg ''errorCode'' = JStr auth_failure_code then
                           (let s2 = (logger ERROR ''WebSocket authentication failure. Signaling WebSocket stop.'' s1)
                                       \<lparr>ws_stop_event := True\<rparr>
                            in if ws_connection s2 then ws_close s2 else s2)
                         else s1)
                   else if map_of msg ''status'' \<noteq> None \<and> dict_get msg ''status'' = JStr ''OK''
                           \<and> map_of msg ''correlationId'' \<noteq> None \<and> map_of msg ''payload'' \<noteq> None
                   then
                     (case dict_get msg ''payload'' of
                        JObj pl \<Rightarrow>
                          (case dict_get pl ''subscriptions'' of
                             JObj ((k, x) # rest) \<Rightarrow>
                               (if x = JStr ''PROCESSED''
                                then logger INFO ''WebSocket control response (e.g. sub/unsub ack)'' s0
                                else route fmt msg s0)
                           | _ \<Rightarrow> route fmt msg s0)
                      | _ \<Rightarrow> general_error s0)
                   else route fmt msg s0)
              | _ \<Rightarrow> general_error s0))"

definition ws_on_error :: "state \<Rightarrow> state" where
  "ws_on_error s = logger ERROR ''WebSocket low-level error'' s"

text \<open>
  \<^verbatim>\<open>_ws_on_close\<close>; the argument says whether the ping thread ended within the
  bounded join.
\<close>

definition ws_on_close :: "bool \<Rightarrow> state \<Rightarrow> state" where
  "ws_on_close ping_joined s =
     (let s1 = (logger WARNING ''WebSocket connection closed.'' s)
                 \<lparr>ws_connection := False, ws_ping_stop_event := True\<rparr>;
          s2 = (if thread_alive (ws_ping_thread s1) then
                  (let s1a = logger DEBUG ''Waiting for WebSocket application ping thread to join...'' s1
                   in if ping_joined then s1a
                      else logger WARNING ''WebSocket application ping thread did not stop in time.'' s1a)
                else s1);
          s3 = s2\<lparr>ws_ping_thread := None\<rparr>
      in if ws_status s3 \<noteq> STOPPING then s3\<lparr>ws_status := DISCONNECTED\<rparr>
         else logger INFO ''WebSocket connection closed as part of a stopping procedure.''
                (s3\<lparr>ws_status := DISCONNECTED\<rparr>))"

text \<open>
  One entry of the snapshot in \<^verbatim>\<open>_ws_on_open\<close>, with its position in the snapshot.
  \<open>now n\<close> is the clock's value when entry \<open>n\<close> is processed.
\<close>

definition resubscribe_frame :: "state \<Rightarrow> int \<Rightarrow> sub_info \<Rightarrow> control_frame" where
  "resubscribe_frame s t i =
     \<lparr>destination =
        (case data_type i of MARKET \<Rightarrow> ''marketData.subscribe''
         | OHLC \<Rightarrow> ''OHLCMarketData.subscribe''),
      correlationId =
        ''reopen-'' @ epic i @ ''-'' @ data_type_value (data_type i) @ ''-'' @ str_int t,
      frame_cst = cst s, securityToken = x_security_token s,
      payload =
        (case data_type i of
           MARKET \<Rightarrow> \<lparr>epics = [epic i], resolutions = None, type_value = None, types = None\<rparr>
         | OHLC \<Rightarrow>
             \<lparr>epics = [epic i],
              resolutions = map_option (\<lambda>r. [resolution_value r]) (resolution i),
              type_value = map_option bar_type_value (bar_type i), types = None\<rparr>)\<rparr>"

definition resubscribe :: "(nat \<Rightarrow> int) \<Rightarrow> nat \<times> string \<times> sub_info \<Rightarrow> state \<Rightarrow> state" where
  "resubscribe now item s =
     (let i = snd (snd item)
      in if active i then
           (if data_type i = OHLC \<and> (resolution i = None \<or> bar_type i = None) then
              logger ERROR ''Cannot resubscribe to OHLC: Resolution or bar_type missing. Skipping.'' s
            else
              ws_send (resubscribe_frame s (now (fst item)) i) (logger INFO ''Resubscribing'' s))
         else
           logger DEBUG ''Skipping inactive subscription found in list during on_open processing.'' s)"

definition ws_on_open :: "(nat \<Rightarrow> int) \<Rightarrow> state \<Rightarrow> state" where
  "ws_on_open now s =
     (let s1 = (logger INFO ''WebSocket connection opened successfully.'' s)
                 \<lparr>ws_status := CONNECTED, ws_reconnect_attempts := 0\<rparr>
      in if \<not> truthy_str (cst s1) \<or> \<not> truthy_str (x_security_token s1) then
           (let s2 = (logger ERROR ''CRITICAL: WebSocket opened but CST/X-SECURITY-TOKEN are missing. Cannot (re)subscribe. Closing WS.'' s1)
                       \<lparr>ws_stop_event := True\<rparr>
            in if ws_connection s2 then ws_close s2 else s2)
         else
           (let s2 = s1\<lparr>ws_ping_stop_event := False, ws_ping_thread := Some True\<rparr>;
                subscriptions_to_resubscribe = ws_subscriptions s2
            in if subscriptions_to_resubscribe = [] then
                 logger INFO ''No active subscriptions to process on WebSocket open/reconnect.'' s2
               else
                 fold (resubscribe now) (enumerate 0 subscriptions_to_resubscribe)
                   (logger INFO ''Processing existing subscriptions on WebSocket (re)open.'' s2)))"

subsection \<open>The reconnect loop\<close>

text \<open>
  What the transport does while \<^verbatim>\<open>run_forever\<close> runs: the callbacks it delivers, in
  order, and a stop signal another thread may raise meanwhile.
\<close>

datatype ws_event =
  OnOpen "nat \<Rightarrow> int" | OnMessage loaded | OnError | OnClose bool | StopSignal

fun deliver :: "(json \<Rightarrow> string) \<Rightarrow> ws_event \<Rightarrow> state \<Rightarrow> state" where
  "deliver fmt (OnOpen now) s = ws_on_open now s"
| "deliver fmt (OnMessage m) s = ws_on_message fmt m s"
| "deliver fmt OnError s = ws_on_error s"
| "deliver fmt (OnClose ping_joined) s = ws_on_close ping_joined s"
| "deliver fmt StopSignal s = s\<lparr>ws_stop_event := True\<rparr>"

datatype run_outcome = Returned | RaisedWebSocketException | RaisedException

text \<open>
  What the outside world decides during one pass through the loop of \<^verbatim>\<open>_ws_run\<close>:
  the two tokens \<^verbatim>\<open>login()\<close> leaves when \<^verbatim>\<open>_get_ws_url\<close> has to call it
  (\<^verbatim>\<open>login()\<close> returns \<^verbatim>\<open>True\<close> exactly when it leaves both), the callbacks
  delivered, how \<^verbatim>\<open>run_forever\<close> ends, and after how many seconds of the backoff wait
  another thread sets the stop event, if it does.
\<close>

record attempt =
  login_tokens :: "string option \<times> string option"
  session :: "ws_event list"
  run_outcome :: run_outcome
  stop_signal_after :: "nat option"

text \<open>\<^verbatim>\<open>_get_ws_url\<close>: the state and the URL, or \<open>None\<close> when it raises.\<close>

definition get_ws_url :: "attempt \<Rightarrow> state \<Rightarrow> state \<times> string option" where
  "get_ws_url a s =
     (let url = (\<lambda>s'. ws_base_url @ ''?cst='' @ opt_str (cst s') @ ''&x-security-token=''
                       @ opt_str (x_security_token s'))
      in if \<not> truthy_str (cst s) \<or> \<not> truthy_str (x_security_token s) then
           (let s1 = (logger WARNING ''CST/X-SECURITY-TOKEN missing for WebSocket. Attempting re-login.'' s)
                       \<lparr>cst := fst (login_tokens a), x_security_token := snd (login_tokens a)\<rparr>
            in if \<not> (truthy_str (cst s1) \<and> truthy_str (x_security_token s1)) then (s1, None)
               else (s1, Some (url s1)))
         else (s, Some (url s)))"

text \<open>The wait before a reconnect: one second at a time, until the delay or the stop event.\<close>

fun stop_is_set :: "nat option \<Rightarrow> nat \<Rightarrow> bool" where
  "stop_is_set None slept_time = False"
| "stop_is_set (Some k) slept_time = (k \<le> slept_time)"

function backoff_wait :: "nat \<Rightarrow> nat option \<Rightarrow> nat \<Rightarrow> nat" where
  "backoff_wait delay stop_after slept_time =
     (if slept_time < delay \<and> \<not> stop_is_set stop_after slept_time
      then backoff_wait delay stop_after (slept_time + 1)
      else slept_time)"
  by pat_completeness auto
termination
  by (relation "measure (\<lambda>(delay, stop_after, slept_time). delay - slept_time)") auto

declare backoff_wait.simps [simp del]

text \<open>The delay the loop computes from the number of attempts made so far.\<close>

definition reconnect_delay :: "nat \<Rightarrow> nat" where
  "reconnect_delay attempts =
     min (ws_initial_reconnect_delay * 2 ^ attempts) ws_max_reconnect_delay"

text \<open>
  The rest of the \<^verbatim>\<open>try\<close> block once the URL is known: the status and the connection
  are assigned, \<^verbatim>\<open>run_forever\<close> delivers the callbacks, and an exception it raises is
  logged by one of the last two \<^verbatim>\<open>except\<close> clauses.
\<close>

definition run_connection :: "(json \<Rightarrow> string) \<Rightarrow> attempt \<Rightarrow> state \<Rightarrow> string \<Rightarrow> state" where
  "run_connection fmt a s1 ws_url =
     (let s3 = fold (deliver fmt) (session a)
                 ((logger INFO ''Attempting to connect to WebSocket'' s1)
                    \<lparr>ws_status := CONNECTING, ws_connection := True,
                     connects := connects s1 @ [ws_url]\<rparr>)
      in case run_outcome a of
           Returned \<Rightarrow> s3
         | RaisedWebSocketException \<Rightarrow> logger ERROR ''WebSocket connection/setup exception'' s3
         | RaisedException \<Rightarrow>
             logger ERROR ''Unexpected error in WebSocket run loop (connection attempt phase)'' s3)"

text \<open>
  One pass through the body of the \<^verbatim>\<open>while\<close> loop of \<^verbatim>\<open>_ws_run\<close>: the state at
  its end, and whether the loop goes on (\<open>False\<close> after a \<^verbatim>\<open>break\<close>).
\<close>

definition ws_iteration :: "(json \<Rightarrow> string) \<Rightarrow> attempt \<Rightarrow> state \<Rightarrow> state \<times> bool" where
  "ws_iteration fmt a s =
     (case get_ws_url a s of
        (s1, None) \<Rightarrow>
          ((logger ERROR ''Cannot start or maintain WebSocket due to API error. Stopping WebSocket attempts.'' s1)
             \<lparr>ws_stop_event := True\<rparr>, False)
      | (s1, Some ws_url) \<Rightarrow>
          (let s4 = run_connection fmt a s1 ws_url
           in if ws_stop_event s4 then
                (logger INFO ''WebSocket stop event is set. Exiting run loop.'' s4, False)
              else if ws_reconnect_attempts s4 < ws_max_reconnect_attempts then
                (let delay = reconnect_delay (ws_reconnect_attempts s4);
                     s5 = (logger INFO ''WebSocket disconnected. Reconnect attempt'' s4)
                            \<lparr>ws_status := CONNECTING\<rparr>;
                     slept_time = backoff_wait delay (stop_signal_after a) 0;
                     s6 = s5\<lparr>backoffs := backoffs s5 @ [(delay, slept_time)],
                             ws_stop_event := stop_is_set (stop_signal_after a) slept_time\<rparr>
                 in if ws_stop_event s6 then
                      (logger INFO ''WebSocket stop event received during reconnect delay. Aborting reconnect.'' s6,
                       False)
                    else (s6\<lparr>ws_reconnect_attempts := ws_reconnect_attempts s6 + 1\<rparr>, True))
              else
                ((logger ERROR ''WebSocket max reconnect attempts reached. Stopping WebSocket thread.'' s4)
                   \<lparr>ws_stop_event := True\<rparr>, False)))"

text \<open>
  The loop. Each pass takes the next \<open>attempt\<close> of the outside world; \<open>None\<close> says that
  the attempts given ran out with the loop still running.
\<close>

fun ws_loop :: "(json \<Rightarrow> string) \<Rightarrow> attempt list \<Rightarrow> state \<Rightarrow> state option" where
  "ws_loop fmt [] s = (if ws_stop_event s then Some s else None)"
| "ws_loop fmt (a # as) s =
     (if ws_stop_event s then Some s
      else case ws_iteration fmt a s of
             (s', True) \<Rightarrow> ws_loop fmt as s'
           | (s', False) \<Rightarrow> Some s')"

text \<open>The lines of \<^verbatim>\<open>_ws_run\<close> after the loop; the thread ends with them.\<close>

definition ws_run_exit :: "state \<Rightarrow> state" where
  "ws_run_exit s =
     (let s1 = (if ws_connection s
                then ws_close (logger DEBUG ''Ensuring WebSocket connection is closed in _ws_run exit path.'' s)
                else s);
          s2 = s1\<lparr>ws_connection := False, ws_ping_stop_event := True, ws_ping_thread := None\<rparr>;
          s3 = (if ws_status s2 \<noteq> STOPPING then s2\<lparr>ws_status := DISCONNECTED\<rparr> else s2)
      in (logger INFO ''WebSocket thread run loop has finished.'' s3)
           \<lparr>ws_thread := map_option (\<lambda>alive. False) (ws_thread s3)\<rparr>)"

definition ws_run :: "(json \<Rightarrow> string) \<Rightarrow> attempt list \<Rightarrow> state \<Rightarrow> state option" where
  "ws_run fmt as s = map_option ws_run_exit (ws_loop fmt as (s\<lparr>ws_status := CONNECTING\<rparr>))"

subsection \<open>The canonical key in the specification's words\<close>

text \<open>
  The specification's form of the canonical stream key: \<^verbatim>\<open>"/market/" + symbol\<close> for
  \<^verbatim>\<open>MARKET\<close>, \<^verbatim>\<open>"/ohlc/" + symbol + "/" + resolution + "/" + barShape\<close> for
  \<^verbatim>\<open>OHLC\<close>, and no key for \<^verbatim>\<open>OHLC\<close> without a resolution. The code's own keys
  are the strings built inside the operations above; the theorems relate the two.
\<close>

fun canonical_key ::
  "WebsocketDataType \<Rightarrow> string \<Rightarrow> HistoricalPriceResolution option \<Rightarrow> OhlcBarType \<Rightarrow>
   string option" where
  "canonical_key MARKET ep res bt = Some (''/market/'' @ ep)"
| "canonical_key OHLC ep (Some r) bt =
     Some (''/ohlc/'' @ ep @ ''/'' @ resolution_value r @ ''/'' @ bar_type_value bt)"
| "canonical_key OHLC ep None bt = None"

subsection \<open>Concrete states and environments\<close>

text \<open>
  The states and environments at which the theorems below are instantiated:
  a clock, an environment in which every join ends in time, the state after a login,
  a record for \<^verbatim>\<open>BTCUSD\<close> market data with callback number 1, and three states of a
  started supervisor: connected with that record, connected with no record, and just after
  \<^verbatim>\<open>_ws_on_close\<close> has set the status while the thread is still in its loop.
  \<open>refused\<close> is a connection attempt that the transport ends with an error and a close.
\<close>

definition clock0 :: "nat \<Rightarrow> int" where
  "clock0 n = 1700000000 + int n"

definition e0 :: env where
  "e0 = \<lparr>clock = clock0, ws_join_in_time = True, ping_join_in_time = True\<rparr>"

definition no_fmt :: "json \<Rightarrow> string" where
  "no_fmt v = []"

definition logged_in :: state where
  "logged_in = init_state\<lparr>cst := Some ''CST'', x_security_token := Some ''XST''\<rparr>"

definition btc_record :: sub_info where
  "btc_record = \<lparr>callback = Some 1, epic = ''BTCUSD'', data_type = MARKET, resolution = None,
     bar_type = Some CLASSIC, active = True\<rparr>"

definition connected_one :: state where
  "connected_one = logged_in\<lparr>ws_thread := Some True, ws_connection := True,
     ws_subscriptions := [(''/market/BTCUSD'', btc_record)], ws_status := CONNECTED\<rparr>"

definition idle_connected :: state where
  "idle_connected = logged_in\<lparr>ws_thread := Some True, ws_connection := True,
     ws_status := CONNECTED\<rparr>"

definition dropped_one :: state where
  "dropped_one = logged_in\<lparr>ws_thread := Some True,
     ws_subscriptions := [(''/market/BTCUSD'', btc_record)], ws_status := DISCONNECTED\<rparr>"

definition refused :: attempt where
  "refused = \<lparr>login_tokens = (None, None), session = [OnError, OnClose True],
     run_outcome = Returned, stop_signal_after = None\<rparr>"

subsection \<open>Notions used in the statements\<close>

text \<open>
  A record that \<^verbatim>\<open>_ws_on_open\<close> can resubscribe: it is active and, for
  \<^verbatim>\<open>OHLC\<close>, has both a resolution and a bar type. \<open>resubscribe_log\<close> is the log entry
  written for one record of the snapshot.
\<close>

definition resubscribable :: "sub_info \<Rightarrow> bool" where
  "resubscribable i =
     (active i \<and> (data_type i = OHLC \<longrightarrow> resolution i \<noteq> None \<and> bar_type i \<noteq> None))"

definition resubscribe_log :: "sub_info \<Rightarrow> level \<times> string" where
  "resubscribe_log i =
     (if \<not> active i then
        (DEBUG, ''Skipping inactive subscription found in list during on_open processing.'')
      else if resubscribable i then (INFO, ''Resubscribing'')
      else (ERROR, ''Cannot resubscribe to OHLC: Resolution or bar_type missing. Skipping.''))"

text \<open>
  A connection attempt that fails: the transport delivers nothing but errors and closes,
  no stop signal arrives during the wait that follows, and the tokens are there (or the
  login that \<^verbatim>\<open>_get_ws_url\<close> makes supplies them).
\<close>

fun is_failure_event :: "ws_event \<Rightarrow> bool" where
  "is_failure_event OnError = True"
| "is_failure_event (OnClose ping_joined) = True"
| "is_failure_event ev = False"

definition failed_attempt :: "state \<Rightarrow> attempt \<Rightarrow> bool" where
  "failed_attempt s a =
     (list_all is_failure_event (session a) \<and> stop_signal_after a = None
      \<and> (tokens_present s
          \<or> (truthy_str (fst (login_tokens a)) \<and> truthy_str (snd (login_tokens a)))))"

text \<open>
  The steps by which the object's state changes: the three public operations, a change of
  the tokens by a login or logout, and the steps of the supervisor thread (the first line
  of \<^verbatim>\<open>_ws_run\<close>, one pass of its loop, one callback, its last lines). A state of
  a running program is the state \<^verbatim>\<open>__init__\<close> leaves followed by such steps in some
  order.
\<close>

datatype operation =
    Subscribe string WebsocketDataType nat "HistoricalPriceResolution option" OhlcBarType int
  | Unsubscribe env string WebsocketDataType "HistoricalPriceResolution option" OhlcBarType
  | StopAll env
  | SetTokens "string option" "string option"
  | RunStart
  | Pass attempt
  | Deliver ws_event
  | RunExit

fun perform :: "(json \<Rightarrow> string) \<Rightarrow> operation \<Rightarrow> state \<Rightarrow> state" where
  "perform fmt (Subscribe ep dt cb res bt now) s = fst (subscribe_to_epic_data s ep dt cb res bt now)"
| "perform fmt (Unsubscribe e ep dt res bt) s = fst (unsubscribe_from_epic_data e s ep dt res bt)"
| "perform fmt (StopAll e) s = stop_all_websocket_subscriptions e s"
| "perform fmt (SetTokens c x) s = s\<lparr>cst := c, x_security_token := x\<rparr>"
| "perform fmt RunStart s = s\<lparr>ws_status := CONNECTING\<rparr>"
| "perform fmt (Pass a) s = fst (ws_iteration fmt a s)"
| "perform fmt (Deliver ev) s = deliver fmt ev s"
| "perform fmt RunExit s = ws_run_exit s"

definition all_active :: "state \<Rightarrow> bool" where
  "all_active s = (\<forall>p\<in>set (ws_subscriptions s). active (snd p))"

subsection \<open>Further instances\<close>

text \<open>
  An \<^verbatim>\<open>OHLC\<close> record without a resolution and a complete one, a state with three
  records, the state after one \<^verbatim>\<open>OHLC\<close> subscription, payloads of \<^verbatim>\<open>ohlc.event\<close>
  frames with and without the members \<^verbatim>\<open>resolution\<close> and \<^verbatim>\<open>type\<close>, an
  authentication-failure frame with a connection on which it arrives, and a short run of
  operations.
\<close>

definition gold_broken :: sub_info where
  "gold_broken = \<lparr>callback = Some 2, epic = ''GOLD'', data_type = OHLC, resolution = None,
     bar_type = Some CLASSIC, active = True\<rparr>"

definition eur_record :: sub_info where
  "eur_record = \<lparr>callback = Some 1, epic = ''EURUSD'', data_type = OHLC,
     resolution = Some MINUTE_5, bar_type = Some CLASSIC, active = True\<rparr>"

definition three_records :: state where
  "three_records = logged_in\<lparr>ws_thread := Some True, ws_connection := True,
     ws_subscriptions := [(''/market/BTCUSD'', btc_record), (''/ohlc/GOLD/None/classic'', gold_broken),
                          (''/ohlc/EURUSD/MINUTE_5/classic'', eur_record)],
     ws_status := CONNECTING\<rparr>"


definition eur_payload :: "(string \<times> json) list" where
  "eur_payload = [(''epic'', JStr ''EURUSD''), (''resolution'', JStr ''MINUTE_5''),
     (''type'', JStr ''classic''), (''c'', JFloat ''1.0842'')]"

definition eur_payload_no_type :: "(string \<times> json) list" where
  "eur_payload_no_type = [(''epic'', JStr ''EURUSD''), (''resolution'', JStr ''MINUTE_5''),
     (''c'', JFloat ''1.0842'')]"

definition eur_payload_no_resolution :: "(string \<times> json) list" where
  "eur_payload_no_resolution = [(''epic'', JStr ''EURUSD''), (''type'', JStr ''classic''),
     (''c'', JFloat ''1.0842'')]"

definition ohlc_frame :: "(string \<times> json) list \<Rightarrow> (string \<times> json) list" where
  "ohlc_frame pl = [(''destination'', JStr ''ohlc.event''), (''payload'', JObj pl)]"

definition auth_failure_frame :: "(string \<times> json) list" where
  "auth_failure_frame = [(''errorCode'', JStr ''exceptions.security.authentication-failure''),
     (''errorMessage'', JStr ''invalid session token'')]"

definition auth_rejected :: attempt where
  "auth_rejected = \<lparr>login_tokens = (None, None),
     session = [OnOpen clock0, OnMessage (Loaded (JObj auth_failure_frame)), OnClose True],
     run_outcome = Returned, stop_signal_after = None\<rparr>"

definition demo_ops :: "operation list" where
  "demo_ops = [SetTokens (Some ''CST'') (Some ''XST''),
     Subscribe ''BTCUSD'' MARKET 1 None CLASSIC 1700000000,
     Subscribe ''EURUSD'' OHLC 1 (Some MINUTE_5) CLASSIC 1700000001,
     Unsubscribe e0 ''BTCUSD'' MARKET None CLASSIC]"

section \<open>Properties\<close>

subsection \<open>Auxiliary facts\<close>

lemmas concrete_defs = logged_in_def init_state_def e0_def clock0_def btc_record_def
  idle_connected_def dropped_one_def connected_one_def refused_def no_fmt_def

lemmas instance_defs = gold_broken_def eur_record_def three_records_def eur_payload_def
  eur_payload_no_type_def eur_payload_no_resolution_def ohlc_frame_def auth_failure_frame_def
  auth_rejected_def

lemma map_of_dict_set: "map_of (dict_set k v ps) = (map_of ps)(k \<mapsto> v)"
  by (induction ps) (auto simp: fun_eq_iff)

lemma dict_pop_absent: "map_of ps k = None \<Longrightarrow> dict_pop k ps = ps"
  unfolding dict_pop_def by (induction ps) (auto split: if_splits)

lemma logger_fields:
  "ws_subscriptions (logger l m s) = ws_subscriptions s"
  "ws_status (logger l m s) = ws_status s"
  "ws_stop_event (logger l m s) = ws_stop_event s"
  "ws_thread (logger l m s) = ws_thread s"
  "ws_connection (logger l m s) = ws_connection s"
  "ws_reconnect_attempts (logger l m s) = ws_reconnect_attempts s"
  "closes (logger l m s) = closes s"
  "connects (logger l m s) = connects s"
  "backoffs (logger l m s) = backoffs s"
  "sent (logger l m s) = sent s"
  "calls (logger l m s) = calls s"
  "cst (logger l m s) = cst s"
  "x_security_token (logger l m s) = x_security_token s"
  by (simp_all add: logger_def)

lemma ws_loop_stopped: "ws_stop_event s \<Longrightarrow> ws_loop fmt as s = Some s"
  by (cases as) simp_all

lemma subscribe_registered_subs:
  "ws_subscriptions (subscribe_registered s k d p ep dt cb res bt now) =
     dict_set k \<lparr>callback = Some cb, epic = ep, data_type = dt, resolution = res,
                 bar_type = Some bt, active = True\<rparr> (ws_subscriptions s)"
  by (simp add: subscribe_registered_def start_websocket_thread_def Let_def logger_def ws_send_def)

lemma stop_websocket_thread_running:
  assumes "ws_status s \<noteq> DISCONNECTED"
  shows "ws_stop_event (stop_websocket_thread e s)"
    and "ws_status (stop_websocket_thread e s) = DISCONNECTED"
    and "ws_thread (stop_websocket_thread e s) = None"
    and "\<not> ws_connection (stop_websocket_thread e s)"
    and "ws_subscriptions (stop_websocket_thread e s) = ws_subscriptions s"
    and "sent (stop_websocket_thread e s) = sent s"
    and "closes (stop_websocket_thread e s) = (if ws_connection s then Suc (closes s) else closes s)"
  using assms by (simp_all add: stop_websocket_thread_def Let_def logger_def ws_close_def)

lemma unsubscribe_local_absent:
  assumes "map_of (ws_subscriptions s) k = None"
  shows "unsubscribe_local e s k d p ep dt res bt =
     logger WARNING ''No active subscription found locally to unsubscribe.'' s"
  using assms dict_pop_absent[OF assms] by (simp add: unsubscribe_local_def)

lemma unsubscribe_local_present:
  assumes "map_of (ws_subscriptions s) k = Some i"
  shows "ws_subscriptions (unsubscribe_local e s k d p ep dt res bt) = dict_pop k (ws_subscriptions s)"
    and "ws_status (unsubscribe_local e s k d p ep dt res bt) = ws_status s"
    and "ws_stop_event (unsubscribe_local e s k d p ep dt res bt) = ws_stop_event s"
    and "ws_thread (unsubscribe_local e s k d p ep dt res bt) = ws_thread s"
    and "closes (unsubscribe_local e s k d p ep dt res bt) = closes s"
  using assms by (simp_all add: unsubscribe_local_def Let_def logger_def ws_send_def)

lemma unsubscribe_key:
  assumes "canonical_key dt ep res bt = Some k"
  shows "\<exists>d p. unsubscribe_from_epic_data e s ep dt res bt =
           (unsubscribe_registered e s k d p ep dt res bt, None)"
proof (cases dt)
  case MARKET
  with assms show ?thesis
    by (auto simp: unsubscribe_from_epic_data_def market_key_def)
next
  case OHLC
  with assms show ?thesis
    by (cases res) (auto simp: unsubscribe_from_epic_data_def ohlc_key_def)
qed

subsection \<open>The callbacks leave most of the state alone\<close>

lemma route_data_fields:
  "ws_stop_event (route_data fmt msg pl s) = ws_stop_event s"
  "backoffs (route_data fmt msg pl s) = backoffs s"
  "connects (route_data fmt msg pl s) = connects s"
  "ws_subscriptions (route_data fmt msg pl s) = ws_subscriptions s"
  "ws_status (route_data fmt msg pl s) = ws_status s"
  "sent (route_data fmt msg pl s) = sent s"
  by (simp_all add: route_data_def Let_def logger_def split: option.splits)

lemma route_fields:
  "ws_stop_event (route fmt msg s) = ws_stop_event s"
  "backoffs (route fmt msg s) = backoffs s"
  "connects (route fmt msg s) = connects s"
  "ws_subscriptions (route fmt msg s) = ws_subscriptions s"
  "ws_status (route fmt msg s) = ws_status s"
  "sent (route fmt msg s) = sent s"
  by (simp_all add: route_def Let_def route_data_fields general_error_def unprocessed_def
      logger_fields split: json.splits)

lemma ws_on_message_fields:
  "ws_stop_event s \<Longrightarrow> ws_stop_event (ws_on_message fmt m s)"
  "backoffs (ws_on_message fmt m s) = backoffs s"
  "connects (ws_on_message fmt m s) = connects s"
  "ws_subscriptions (ws_on_message fmt m s) = ws_subscriptions s"
  "ws_status (ws_on_message fmt m s) = ws_status s"
  "sent (ws_on_message fmt m s) = sent s"
  by (simp_all add: ws_on_message_def Let_def route_fields general_error_def
      logger_fields ws_close_def split: loaded.splits json.splits list.splits prod.splits)

lemma resubscribe_frame_cong:
  "cst s' = cst s \<Longrightarrow> x_security_token s' = x_security_token s \<Longrightarrow>
   resubscribe_frame s' t i = resubscribe_frame s t i"
  by (simp add: resubscribe_frame_def)

lemma resubscribe_step:
  "resubscribe now item s =
     s\<lparr>sent := sent s @ (if resubscribable (snd (snd item))
                          then [resubscribe_frame s (now (fst item)) (snd (snd item))] else []),
       logged := logged s @ [resubscribe_log (snd (snd item))]\<rparr>"
  by (cases "data_type (snd (snd item))")
     (auto simp: resubscribe_def resubscribable_def resubscribe_log_def Let_def logger_def ws_send_def)

lemma fold_resubscribe:
  "fold (resubscribe now) items s =
     s\<lparr>sent := sent s @ map (\<lambda>item. resubscribe_frame s (now (fst item)) (snd (snd item)))
                          (filter (\<lambda>item. resubscribable (snd (snd item))) items),
       logged := logged s @ map (\<lambda>item. resubscribe_log (snd (snd item))) items\<rparr>"
proof (induction items arbitrary: s)
  case Nil
  show ?case by simp
next
  case (Cons item items)
  have c: "\<And>t i. resubscribe_frame (resubscribe now item s) t i = resubscribe_frame s t i"
    by (rule resubscribe_frame_cong) (simp_all add: resubscribe_step)
  show ?case
    by (simp add: Cons.IH c) (simp add: resubscribe_step)
qed

lemma ws_on_open_tokens:
  assumes "tokens_present s"
  shows "ws_on_open now s =
     (s\<lparr>ws_status := CONNECTED, ws_reconnect_attempts := 0,
       ws_ping_stop_event := False, ws_ping_thread := Some True,
       sent := sent s @ map (\<lambda>item. resubscribe_frame s (now (fst item)) (snd (snd item)))
                          (filter (\<lambda>item. resubscribable (snd (snd item)))
                             (enumerate 0 (ws_subscriptions s))),
       logged := logged s @ (INFO, ''WebSocket connection opened successfully.'')
                 # (if ws_subscriptions s = []
                    then [(INFO, ''No active subscriptions to process on WebSocket open/reconnect.'')]
                    else (INFO, ''Processing existing subscriptions on WebSocket (re)open.'')
                         # map (\<lambda>item. resubscribe_log (snd (snd item)))
                             (enumerate 0 (ws_subscriptions s)))\<rparr>)" (is "_ = ?thesis_rhs")
proof -
  have t: "truthy_str (cst s)" "truthy_str (x_security_token s)"
    using assms by (simp_all add: tokens_present_def)
  let ?s2 = "(logger INFO ''Processing existing subscriptions on WebSocket (re)open.''
      ((logger INFO ''WebSocket connection opened successfully.'' s)
         \<lparr>ws_status := CONNECTED, ws_reconnect_attempts := 0, ws_ping_stop_event := False,
          ws_ping_thread := Some True\<rparr>))"
  have c: "\<And>t i. resubscribe_frame ?s2 t i = resubscribe_frame s t i"
    by (rule resubscribe_frame_cong) (simp_all add: logger_def)
  have "ws_on_open now s =
      (if ws_subscriptions s = [] then
         logger INFO ''No active subscriptions to process on WebSocket open/reconnect.''
           ((logger INFO ''WebSocket connection opened successfully.'' s)
              \<lparr>ws_status := CONNECTED, ws_reconnect_attempts := 0, ws_ping_stop_event := False,
               ws_ping_thread := Some True\<rparr>)
       else fold (resubscribe now) (enumerate 0 (ws_subscriptions s)) ?s2)"
    using t unfolding ws_on_open_def Let_def logger_def by simp
  also have "\<dots> = ?thesis_rhs"
    by (simp only: fold_resubscribe c) (simp add: logger_def)
  finally show ?thesis .
qed


lemma ws_on_open_no_tokens:
  assumes "\<not> tokens_present s"
  shows "ws_on_open now s =
     (let s2 = (logger ERROR ''CRITICAL: WebSocket opened but CST/X-SECURITY-TOKEN are missing. Cannot (re)subscribe. Closing WS.''
                 ((logger INFO ''WebSocket connection opened successfully.'' s)
                    \<lparr>ws_status := CONNECTED, ws_reconnect_attempts := 0\<rparr>))
                 \<lparr>ws_stop_event := True\<rparr>
      in if ws_connection s then ws_close s2 else s2)"
  using assms by (auto simp: ws_on_open_def tokens_present_def Let_def logger_def)

lemma ws_on_open_fields:
  "ws_stop_event s \<Longrightarrow> ws_stop_event (ws_on_open now s)"
  "backoffs (ws_on_open now s) = backoffs s"
  "connects (ws_on_open now s) = connects s"
  "ws_subscriptions (ws_on_open now s) = ws_subscriptions s"
  "ws_status (ws_on_open now s) = CONNECTED"
  by (cases "tokens_present s";
      simp add: ws_on_open_tokens ws_on_open_no_tokens Let_def logger_def ws_close_def)+

lemma ws_on_close_fields:
  "ws_stop_event (ws_on_close j s) = ws_stop_event s"
  "backoffs (ws_on_close j s) = backoffs s"
  "connects (ws_on_close j s) = connects s"
  "ws_subscriptions (ws_on_close j s) = ws_subscriptions s"
  "ws_status (ws_on_close j s) = DISCONNECTED"
  "ws_reconnect_attempts (ws_on_close j s) = ws_reconnect_attempts s"
  "cst (ws_on_close j s) = cst s"
  "x_security_token (ws_on_close j s) = x_security_token s"
  by (simp_all add: ws_on_close_def Let_def logger_def)

lemma deliver_fields:
  "ws_stop_event s \<Longrightarrow> ws_stop_event (deliver fmt ev s)"
  "backoffs (deliver fmt ev s) = backoffs s"
  "connects (deliver fmt ev s) = connects s"
  "ws_subscriptions (deliver fmt ev s) = ws_subscriptions s"
  "ws_status s \<noteq> STOPPING \<Longrightarrow> ws_status (deliver fmt ev s) \<noteq> STOPPING"
  by (cases ev; simp add: ws_on_open_fields ws_on_close_fields ws_on_message_fields
        ws_on_error_def logger_fields)+

lemma fold_deliver_fields:
  "ws_stop_event s \<Longrightarrow> ws_stop_event (fold (deliver fmt) evs s)"
  "backoffs (fold (deliver fmt) evs s) = backoffs s"
  "connects (fold (deliver fmt) evs s) = connects s"
  "ws_subscriptions (fold (deliver fmt) evs s) = ws_subscriptions s"
  "ws_status s \<noteq> STOPPING \<Longrightarrow> ws_status (fold (deliver fmt) evs s) \<noteq> STOPPING"
  by (induction evs arbitrary: s; simp add: deliver_fields)+

lemma auth_failure_message:
  assumes "dict_get msg ''errorCode'' = JStr auth_failure_code"
  shows "ws_on_message fmt (Loaded (JObj msg)) s =
     (let s2 = (logger ERROR ''WebSocket authentication failure. Signaling WebSocket stop.''
                 (logger ERROR ''WebSocket error from server''
                    (logger DEBUG ''WebSocket received message'' s)))
                 \<lparr>ws_stop_event := True\<rparr>
      in if ws_connection s then ws_close s2 else s2)"
  using assms by (simp add: ws_on_message_def Let_def auth_failure_code_def logger_def)

lemma fold_deliver_stops:
  assumes "ev \<in> set evs" and "\<And>s. ws_stop_event (deliver fmt ev s)"
  shows "ws_stop_event (fold (deliver fmt) evs s)"
  using assms(1)
proof (induction evs arbitrary: s)
  case Nil
  then show ?case by simp
next
  case (Cons x xs)
  show ?case
  proof (cases "x = ev")
    case True
    then show ?thesis by (simp add: fold_deliver_fields(1) assms(2))
  next
    case False
    with Cons show ?thesis by simp
  qed
qed

subsection \<open>One pass and many passes of the loop\<close>

lemma get_ws_url_fields:
  "ws_stop_event (fst (get_ws_url a s)) = ws_stop_event s"
  "backoffs (fst (get_ws_url a s)) = backoffs s"
  "connects (fst (get_ws_url a s)) = connects s"
  "ws_subscriptions (fst (get_ws_url a s)) = ws_subscriptions s"
  "ws_status (fst (get_ws_url a s)) = ws_status s"
  "ws_reconnect_attempts (fst (get_ws_url a s)) = ws_reconnect_attempts s"
  by (simp_all add: get_ws_url_def Let_def logger_def)

lemma get_ws_url_ok:
  assumes "tokens_present s \<or> (truthy_str (fst (login_tokens a)) \<and> truthy_str (snd (login_tokens a)))"
  shows "snd (get_ws_url a s) \<noteq> None" and "tokens_present (fst (get_ws_url a s))"
  using assms by (auto simp: get_ws_url_def Let_def logger_def tokens_present_def)

lemma fold_failure_fields:
  assumes "list_all is_failure_event evs"
  shows "ws_stop_event (fold (deliver fmt) evs s) = ws_stop_event s
    \<and> ws_reconnect_attempts (fold (deliver fmt) evs s) = ws_reconnect_attempts s
    \<and> cst (fold (deliver fmt) evs s) = cst s
    \<and> x_security_token (fold (deliver fmt) evs s) = x_security_token s"
  using assms
proof (induction evs arbitrary: s)
  case Nil
  show ?case by simp
next
  case (Cons ev evs)
  then show ?case
    by (cases ev) (simp_all add: ws_on_close_fields ws_on_error_def logger_fields)
qed

lemma backoff_wait_no_stop: "backoff_wait delay None slept_time = max slept_time delay"
proof (induction delay "None :: nat option" slept_time rule: backoff_wait.induct)
  case (1 delay slept_time)
  show ?case
  proof (cases "slept_time < delay")
    case True
    with 1 show ?thesis by (subst backoff_wait.simps) simp
  next
    case False
    then show ?thesis by (subst backoff_wait.simps) simp
  qed
qed


lemma run_connection_fields:
  "ws_stop_event s1 \<Longrightarrow> ws_stop_event (run_connection fmt a s1 u)"
  "backoffs (run_connection fmt a s1 u) = backoffs s1"
  "connects (run_connection fmt a s1 u) = connects s1 @ [u]"
  "ws_subscriptions (run_connection fmt a s1 u) = ws_subscriptions s1"
  "ws_status (run_connection fmt a s1 u) \<noteq> STOPPING"
  by (cases "run_outcome a";
      simp add: run_connection_def Let_def fold_deliver_fields logger_fields)+

lemma run_connection_failure:
  assumes "list_all is_failure_event (session a)"
  shows "ws_stop_event (run_connection fmt a s1 u) = ws_stop_event s1"
    and "ws_reconnect_attempts (run_connection fmt a s1 u) = ws_reconnect_attempts s1"
    and "cst (run_connection fmt a s1 u) = cst s1"
    and "x_security_token (run_connection fmt a s1 u) = x_security_token s1"
  using fold_failure_fields[OF assms]
  by (cases "run_outcome a"; simp add: run_connection_def Let_def logger_fields)+

lemma run_connection_stops:
  assumes "ev \<in> set (session a)" and "\<And>s. ws_stop_event (deliver fmt ev s)"
  shows "ws_stop_event (run_connection fmt a s1 u)"
  using fold_deliver_stops[OF assms]
  by (cases "run_outcome a"; simp add: run_connection_def Let_def logger_fields)

lemma ws_iteration_url:
  assumes "get_ws_url a s = (s1, Some u)"
  shows "ws_iteration fmt a s =
     (let s4 = run_connection fmt a s1 u
      in if ws_stop_event s4 then
           (logger INFO ''WebSocket stop event is set. Exiting run loop.'' s4, False)
         else if ws_reconnect_attempts s4 < ws_max_reconnect_attempts then
           (let delay = reconnect_delay (ws_reconnect_attempts s4);
                s5 = (logger INFO ''WebSocket disconnected. Reconnect attempt'' s4)
                       \<lparr>ws_status := CONNECTING\<rparr>;
                slept_time = backoff_wait delay (stop_signal_after a) 0;
                s6 = s5\<lparr>backoffs := backoffs s5 @ [(delay, slept_time)],
                        ws_stop_event := stop_is_set (stop_signal_after a) slept_time\<rparr>
            in if ws_stop_event s6 then
                 (logger INFO ''WebSocket stop event received during reconnect delay. Aborting reconnect.'' s6,
                  False)
               else (s6\<lparr>ws_reconnect_attempts := ws_reconnect_attempts s6 + 1\<rparr>, True))
         else
           ((logger ERROR ''WebSocket max reconnect attempts reached. Stopping WebSocket thread.'' s4)
              \<lparr>ws_stop_event := True\<rparr>, False))"
  unfolding ws_iteration_def assms by simp

lemma ws_iteration_no_url:
  assumes "get_ws_url a s = (s1, None)"
  shows "ws_iteration fmt a s =
     ((logger ERROR ''Cannot start or maintain WebSocket due to API error. Stopping WebSocket attempts.'' s1)
        \<lparr>ws_stop_event := True\<rparr>, False)"
  unfolding ws_iteration_def assms by simp

lemma failed_pass:
  assumes "failed_attempt s a" and "\<not> ws_stop_event s"
    and "ws_reconnect_attempts s < ws_max_reconnect_attempts"
  shows "\<exists>s'. ws_iteration fmt a s = (s', True) \<and> \<not> ws_stop_event s'
     \<and> ws_reconnect_attempts s' = Suc (ws_reconnect_attempts s)
     \<and> backoffs s' = backoffs s @ [(reconnect_delay (ws_reconnect_attempts s),
                                     reconnect_delay (ws_reconnect_attempts s))]
     \<and> length (connects s') = Suc (length (connects s)) \<and> tokens_present s'"
proof -
  from assms(1) have f: "list_all is_failure_event (session a)"
    and n: "stop_signal_after a = None"
    and tk: "tokens_present s \<or> (truthy_str (fst (login_tokens a)) \<and> truthy_str (snd (login_tokens a)))"
    by (simp_all add: failed_attempt_def)
  obtain s1 u where g: "get_ws_url a s = (s1, Some u)"
    using get_ws_url_ok(1)[OF tk] by (cases "get_ws_url a s") auto
  have s1: "ws_stop_event s1 = ws_stop_event s" "backoffs s1 = backoffs s"
    "connects s1 = connects s" "ws_reconnect_attempts s1 = ws_reconnect_attempts s"
    "tokens_present s1"
    using get_ws_url_fields[of a s] get_ws_url_ok(2)[OF tk] by (simp_all add: g)
  note af = run_connection_failure[OF f, of fmt s1 u] run_connection_fields(2,3)[of fmt a s1 u]
  show ?thesis
    unfolding ws_iteration_url[OF g] Let_def
    using assms(2,3) s1
    by (simp add: af n backoff_wait_no_stop logger_fields tokens_present_def)
qed

lemma exhausted_pass:
  assumes "failed_attempt s a" and "\<not> ws_stop_event s"
    and "ws_reconnect_attempts s = ws_max_reconnect_attempts"
  shows "\<exists>s'. ws_iteration fmt a s = (s', False) \<and> ws_stop_event s'
     \<and> backoffs s' = backoffs s \<and> length (connects s') = Suc (length (connects s))
     \<and> ws_status s' \<noteq> STOPPING"
proof -
  from assms(1) have f: "list_all is_failure_event (session a)"
    and tk: "tokens_present s \<or> (truthy_str (fst (login_tokens a)) \<and> truthy_str (snd (login_tokens a)))"
    by (simp_all add: failed_attempt_def)
  obtain s1 u where g: "get_ws_url a s = (s1, Some u)"
    using get_ws_url_ok(1)[OF tk] by (cases "get_ws_url a s") auto
  have s1: "ws_stop_event s1 = ws_stop_event s" "backoffs s1 = backoffs s"
    "connects s1 = connects s" "ws_reconnect_attempts s1 = ws_reconnect_attempts s"
    using get_ws_url_fields[of a s] by (simp_all add: g)
  note af = run_connection_failure[OF f, of fmt s1 u] run_connection_fields(2,3,5)[of fmt a s1 u]
  show ?thesis
    unfolding ws_iteration_url[OF g] Let_def
    using assms(2,3) s1
    by (simp add: af logger_fields logger_def)
qed


lemma failed_attempt_mono:
  "failed_attempt s a \<Longrightarrow> tokens_present s' \<Longrightarrow> failed_attempt s' a"
  by (simp add: failed_attempt_def)

lemma failed_passes:
  assumes "\<forall>a\<in>set fs. failed_attempt s a" and "\<not> ws_stop_event s"
    and "ws_reconnect_attempts s + length fs \<le> ws_max_reconnect_attempts"
  shows "\<exists>s'. ws_loop fmt (fs @ rest) s = ws_loop fmt rest s' \<and> \<not> ws_stop_event s'
     \<and> ws_reconnect_attempts s' = ws_reconnect_attempts s + length fs
     \<and> backoffs s' = backoffs s
          @ map (\<lambda>k. (reconnect_delay k, reconnect_delay k))
              [ws_reconnect_attempts s ..< ws_reconnect_attempts s + length fs]
     \<and> length (connects s') = length (connects s) + length fs
     \<and> (\<forall>a. failed_attempt s a \<longrightarrow> failed_attempt s' a)"
  using assms
proof (induction fs arbitrary: s)
  case Nil
  then show ?case by auto
next
  case (Cons a fs)
  from Cons.prems have a: "failed_attempt s a"
    and lt: "ws_reconnect_attempts s < ws_max_reconnect_attempts" by simp_all
  from failed_pass[OF a Cons.prems(2) lt, of fmt]
  obtain s1 where s1: "ws_iteration fmt a s = (s1, True)" "\<not> ws_stop_event s1"
    "ws_reconnect_attempts s1 = Suc (ws_reconnect_attempts s)"
    "backoffs s1 = backoffs s @ [(reconnect_delay (ws_reconnect_attempts s),
                                  reconnect_delay (ws_reconnect_attempts s))]"
    "length (connects s1) = Suc (length (connects s))" "tokens_present s1"
    by blast
  have mono: "\<And>b. failed_attempt s b \<Longrightarrow> failed_attempt s1 b"
    using failed_attempt_mono s1(6) by blast
  have p1: "\<forall>b\<in>set fs. failed_attempt s1 b"
    using Cons.prems(1) mono by simp
  have p3: "ws_reconnect_attempts s1 + length fs \<le> ws_max_reconnect_attempts"
    using Cons.prems(3) s1(3) by simp
  from Cons.IH[OF p1 s1(2) p3]
  obtain s' where s': "ws_loop fmt (fs @ rest) s1 = ws_loop fmt rest s'" "\<not> ws_stop_event s'"
    "ws_reconnect_attempts s' = ws_reconnect_attempts s1 + length fs"
    "backoffs s' = backoffs s1
          @ map (\<lambda>k. (reconnect_delay k, reconnect_delay k))
              [ws_reconnect_attempts s1 ..< ws_reconnect_attempts s1 + length fs]"
    "length (connects s') = length (connects s1) + length fs"
    "\<forall>b. failed_attempt s1 b \<longrightarrow> failed_attempt s' b"
    by blast
  have l: "ws_loop fmt ((a # fs) @ rest) s = ws_loop fmt rest s'"
    using Cons.prems(2) s1(1) s'(1) by simp
  have u: "[ws_reconnect_attempts s ..< ws_reconnect_attempts s + length (a # fs)]
      = ws_reconnect_attempts s # [Suc (ws_reconnect_attempts s) ..< Suc (ws_reconnect_attempts s) + length fs]"
    using upt_conv_Cons[of "ws_reconnect_attempts s" "ws_reconnect_attempts s + Suc (length fs)"]
    by simp
  show ?case
    apply (rule exI[of _ s'])
    unfolding u
    using l s' s1 mono by simp
qed

lemma ws_run_exit_fields:
  "ws_stop_event (ws_run_exit s) = ws_stop_event s"
  "backoffs (ws_run_exit s) = backoffs s"
  "connects (ws_run_exit s) = connects s"
  "ws_subscriptions (ws_run_exit s) = ws_subscriptions s"
  "\<not> ws_connection (ws_run_exit s)"
  "ws_status s \<noteq> STOPPING \<Longrightarrow> ws_status (ws_run_exit s) = DISCONNECTED"
  by (simp_all add: ws_run_exit_def Let_def logger_def ws_close_def)

lemma reconnect_delays:
  "map reconnect_delay [0 ..< 10] = [5, 10, 20, 40, 60, 60, 60, 60, 60, 60]"
  by (simp add: reconnect_delay_def ws_initial_reconnect_delay_def ws_max_reconnect_delay_def
      upt_rec)

lemma schedule_formula:
  "map (\<lambda>n. min (5 * 2 ^ (n - 1)) 60) [1 ..< 11] = [5, 10, 20, 40, 60, 60, 60, 60, 60, 60 :: nat]"
  by (simp add: upt_rec)

subsection \<open>Routing of data frames\<close>

lemma resolution_value_nonempty: "resolution_value r \<noteq> []"
  by (cases r) simp_all






lemma auth_failure_delivered:
  assumes "dict_get msg ''errorCode'' = JStr auth_failure_code"
  shows "ws_stop_event (deliver fmt (OnMessage (Loaded (JObj msg))) s)"
  by (simp add: auth_failure_message[OF assms] Let_def ws_close_def)

lemma ws_iteration_fatal:
  assumes "ev \<in> set (session a)" and "\<And>s. ws_stop_event (deliver fmt ev s)"
    and "ws_status s \<noteq> STOPPING"
  shows "snd (ws_iteration fmt a s) = False
    \<and> ws_stop_event (fst (ws_iteration fmt a s))
    \<and> backoffs (fst (ws_iteration fmt a s)) = backoffs s
    \<and> length (connects (fst (ws_iteration fmt a s))) \<le> Suc (length (connects s))
    \<and> ws_status (fst (ws_iteration fmt a s)) \<noteq> STOPPING"
proof (cases "get_ws_url a s")
  case (Pair s1 url)
  have s1: "backoffs s1 = backoffs s" "connects s1 = connects s" "ws_status s1 = ws_status s"
    using get_ws_url_fields[of a s] by (simp_all add: Pair)
  show ?thesis
  proof (cases url)
    case None
    with Pair s1 assms(3) show ?thesis
      by (simp add: ws_iteration_no_url logger_fields)
  next
    case (Some u)
    have st: "ws_stop_event (run_connection fmt a s1 u)"
      by (rule run_connection_stops[OF assms(1,2)])
    from Pair Some s1 st show ?thesis
      by (simp add: ws_iteration_url Let_def logger_fields run_connection_fields)
  qed
qed

subsection \<open>The dictionary under every step\<close>

lemma set_dict_set: "set (dict_set k v ps) \<subseteq> insert (k, v) (set ps)"
  by (induction ps) auto

lemma set_dict_pop: "set (dict_pop k ps) \<subseteq> set ps"
  by (auto simp: dict_pop_def)

lemma stop_websocket_thread_subs:
  "ws_subscriptions (stop_websocket_thread e s) = ws_subscriptions s"
  by (simp add: stop_websocket_thread_def Let_def logger_def ws_close_def)

lemma subscribe_subs:
  "ws_subscriptions (fst (subscribe_to_epic_data s ep dt cb res bt now)) = ws_subscriptions s
   \<or> (\<exists>k. ws_subscriptions (fst (subscribe_to_epic_data s ep dt cb res bt now)) =
         dict_set k \<lparr>callback = Some cb, epic = ep, data_type = dt, resolution = res,
                     bar_type = Some bt, active = True\<rparr> (ws_subscriptions s))"
  by (cases dt; cases res)
     (auto simp: subscribe_to_epic_data_def subscribe_registered_subs logger_fields)

lemma subscribe_new_active:
  assumes "p \<in> set (ws_subscriptions (fst (subscribe_to_epic_data s ep dt cb res bt now)))"
  shows "p \<in> set (ws_subscriptions s) \<or> active (snd p)"
proof -
  let ?i = "\<lparr>callback = Some cb, epic = ep, data_type = dt, resolution = res,
             bar_type = Some bt, active = True\<rparr>"
  from subscribe_subs[of s ep dt cb res bt now]
  consider "ws_subscriptions (fst (subscribe_to_epic_data s ep dt cb res bt now)) = ws_subscriptions s"
    | k where "ws_subscriptions (fst (subscribe_to_epic_data s ep dt cb res bt now)) =
         dict_set k ?i (ws_subscriptions s)"
    by blast
  then show ?thesis
  proof cases
    case 1
    with assms show ?thesis by simp
  next
    case 2
    with assms have "p \<in> insert (k, ?i) (set (ws_subscriptions s))"
      using set_dict_set[of k ?i "ws_subscriptions s"] by auto
    then show ?thesis by auto
  qed
qed

lemma unsubscribe_local_subs:
  "ws_subscriptions (unsubscribe_local e s k d p ep dt res bt) = dict_pop k (ws_subscriptions s)"
  by (simp add: unsubscribe_local_def Let_def logger_def ws_send_def split: option.splits)

lemma unsubscribe_registered_subs:
  "ws_subscriptions (unsubscribe_registered e s k d p ep dt res bt) = dict_pop k (ws_subscriptions s)"
  by (simp add: unsubscribe_registered_def Let_def stop_websocket_thread_subs logger_fields
      unsubscribe_local_subs)

lemma unsubscribe_subs:
  "set (ws_subscriptions (fst (unsubscribe_from_epic_data e s ep dt res bt)))
     \<subseteq> set (ws_subscriptions s)"
  by (cases dt; cases res)
     (simp_all add: unsubscribe_from_epic_data_def unsubscribe_registered_subs set_dict_pop)

lemma stop_all_send_subs:
  "ws_subscriptions (stop_all_send e item s) = ws_subscriptions s"
  by (simp add: stop_all_send_def Let_def logger_def ws_send_def)

lemma fold_stop_all_send_subs:
  "ws_subscriptions (fold (stop_all_send e) items s) = ws_subscriptions s"
  by (induction items arbitrary: s) (simp_all add: stop_all_send_subs)

lemma stop_all_subs:
  "ws_subscriptions (stop_all_websocket_subscriptions e s) = []"
  by (simp add: stop_all_websocket_subscriptions_def Let_def stop_websocket_thread_subs
      logger_fields fold_stop_all_send_subs)

lemma ws_iteration_subs:
  "ws_subscriptions (fst (ws_iteration fmt a s)) = ws_subscriptions s"
proof (cases "get_ws_url a s")
  case (Pair s1 url)
  have s1: "ws_subscriptions s1 = ws_subscriptions s"
    using get_ws_url_fields(4)[of a s] by (simp add: Pair)
  show ?thesis
  proof (cases url)
    case None
    with Pair s1 show ?thesis by (simp add: ws_iteration_no_url logger_fields)
  next
    case (Some u)
    with Pair s1 show ?thesis
      by (simp add: ws_iteration_url Let_def logger_fields run_connection_fields)
  qed
qed

lemma perform_all_active:
  assumes "all_active s"
  shows "all_active (perform fmt op s)"
proof (cases op)
  case (Subscribe ep dt cb res bt now)
  show ?thesis
    using subscribe_new_active[of _ s ep dt cb res bt now] assms
    unfolding Subscribe all_active_def perform.simps by blast
next
  case (Unsubscribe e ep dt res bt)
  show ?thesis
    using unsubscribe_subs[of e s ep dt res bt] assms
    unfolding Unsubscribe all_active_def perform.simps by blast
next
  case (StopAll e)
  show ?thesis by (simp add: StopAll all_active_def stop_all_subs)
next
  case (SetTokens c x)
  with assms show ?thesis by (simp add: all_active_def)
next
  case RunStart
  with assms show ?thesis by (simp add: all_active_def)
next
  case (Pass a)
  with assms show ?thesis by (simp add: all_active_def ws_iteration_subs)
next
  case (Deliver ev)
  with assms show ?thesis by (simp add: all_active_def deliver_fields)
next
  case RunExit
  with assms show ?thesis by (simp add: all_active_def ws_run_exit_fields)
qed

lemma fold_perform_all_active:
  "all_active s \<Longrightarrow> all_active (fold (perform fmt) ops s)"
  by (induction ops arbitrary: s) (simp_all add: perform_all_active)

lemma init_all_active: "all_active init_state"
  by (simp add: all_active_def init_state_def)

subsection \<open>Subscribing\<close>

text \<open>
  Claim C5, as amended. A call of \<^verbatim>\<open>subscribe_to_epic_data\<close> made while both session
  tokens are present validates the resolution (for \<^verbatim>\<open>OHLC\<close> without one it raises
  \<^verbatim>\<open>ValueError\<close> and leaves the whole state as it was) and otherwise stores the record
  with the active flag set under the canonical key, leaving every other key of the
  dictionary as it was. A call made while a token is missing, whatever its arguments,
  raises nothing and returns the state at the call with one error added to the log: the
  resolution is not validated and the dictionary is not touched.
\<close>

theorem subscribe_upserts_when_logged_in:
  "(tokens_present s \<longrightarrow>
      (case canonical_key dt ep res bt of
         None \<Rightarrow> (\<exists>m. subscribe_to_epic_data s ep dt cb res bt now = (s, Some (ValueError m)))
       | Some k \<Rightarrow>
           snd (subscribe_to_epic_data s ep dt cb res bt now) = None \<and>
           map_of (ws_subscriptions (fst (subscribe_to_epic_data s ep dt cb res bt now))) =
             (map_of (ws_subscriptions s))
               (k \<mapsto> \<lparr>callback = Some cb, epic = ep, data_type = dt, resolution = res,
                       bar_type = Some bt, active = True\<rparr>)))
   \<and> (\<not> tokens_present s \<longrightarrow>
        subscribe_to_epic_data s ep dt cb res bt now =
          (logger ERROR ''Cannot subscribe: API not logged in (CST/XST missing). Please login first.'' s,
           None))"
proof (cases "tokens_present s")
  case False
  then show ?thesis
    by (auto simp: subscribe_to_epic_data_def tokens_present_def)
next
  case True
  then have t: "truthy_str (cst s)" "truthy_str (x_security_token s)"
    by (simp_all add: tokens_present_def)
  show ?thesis
  proof (cases dt)
    case MARKET
    with True t show ?thesis
      by (simp add: subscribe_to_epic_data_def subscribe_registered_subs map_of_dict_set market_key_def)
  next
    case OHLC
    with True t show ?thesis
      by (cases res)
         (simp_all add: subscribe_to_epic_data_def subscribe_registered_subs map_of_dict_set ohlc_key_def)
  qed
qed

text \<open>
  An instance: after a login, subscribing to five-minute classic bars of \<^verbatim>\<open>EURUSD\<close>
  stores the record under \<^verbatim>\<open>/ohlc/EURUSD/MINUTE_5/classic\<close>.
\<close>

theorem subscribe_upserts_when_logged_in_witness:
  "tokens_present logged_in
   \<and> snd (subscribe_to_epic_data logged_in ''EURUSD'' OHLC 1 (Some MINUTE_5) CLASSIC 1700000000) = None
   \<and> map_of (ws_subscriptions
        (fst (subscribe_to_epic_data logged_in ''EURUSD'' OHLC 1 (Some MINUTE_5) CLASSIC 1700000000)))
        ''/ohlc/EURUSD/MINUTE_5/classic''
      = Some \<lparr>callback = Some 1, epic = ''EURUSD'', data_type = OHLC, resolution = Some MINUTE_5,
               bar_type = Some CLASSIC, active = True\<rparr>
   \<and> \<not> tokens_present init_state
   \<and> logged (fst (subscribe_to_epic_data init_state ''BTCUSD'' MARKET 1 None CLASSIC 1700000000))
      = [(ERROR, ''Cannot subscribe: API not logged in (CST/XST missing). Please login first.'')]
   \<and> ws_subscriptions (fst (subscribe_to_epic_data init_state ''BTCUSD'' MARKET 1 None CLASSIC 1700000000))
      = []"
proof -
  have t: "tokens_present logged_in"
    by (simp add: tokens_present_def logged_in_def init_state_def)
  have n: "\<not> tokens_present init_state"
    by (simp add: tokens_present_def init_state_def)
  have i: "logged init_state = []" "ws_subscriptions init_state = []"
    by (simp_all add: init_state_def)
  from subscribe_upserts_when_logged_in[where s=logged_in and dt=OHLC and ep="''EURUSD''"
      and res="Some MINUTE_5" and bt=CLASSIC and cb=1 and now=1700000000] t
  have a: "snd (subscribe_to_epic_data logged_in ''EURUSD'' OHLC 1 (Some MINUTE_5) CLASSIC 1700000000) = None
   \<and> map_of (ws_subscriptions
        (fst (subscribe_to_epic_data logged_in ''EURUSD'' OHLC 1 (Some MINUTE_5) CLASSIC 1700000000)))
        ''/ohlc/EURUSD/MINUTE_5/classic''
      = Some \<lparr>callback = Some 1, epic = ''EURUSD'', data_type = OHLC, resolution = Some MINUTE_5,
               bar_type = Some CLASSIC, active = True\<rparr>"
    by simp
  from subscribe_upserts_when_logged_in[where s=init_state and dt=MARKET and ep="''BTCUSD''"
      and res=None and bt=CLASSIC and cb=1 and now=1700000000] n
  have b: "subscribe_to_epic_data init_state ''BTCUSD'' MARKET 1 None CLASSIC 1700000000 =
      (logger ERROR ''Cannot subscribe: API not logged in (CST/XST missing). Please login first.'' init_state,
       None)"
    by simp
  from t n a i show ?thesis unfolding b by (simp add: logger_def)
qed

text \<open>
  Claim C5 as stated fails in the state \<^verbatim>\<open>__init__\<close> leaves, where no token is
  present: an \<^verbatim>\<open>OHLC\<close> subscription without a resolution raises nothing, and a
  \<^verbatim>\<open>MARKET\<close> subscription stores no record; each adds the guard's error to the log.
\<close>

theorem subscribe_not_logged_in_counterexample:
  "\<not> tokens_present init_state
   \<and> snd (subscribe_to_epic_data init_state ''EURUSD'' OHLC 1 None CLASSIC 1700000000) = None
   \<and> ws_subscriptions (fst (subscribe_to_epic_data init_state ''BTCUSD'' MARKET 1 None CLASSIC 1700000000)) = []
   \<and> map_of (ws_subscriptions (fst (subscribe_to_epic_data init_state ''BTCUSD'' MARKET 1 None CLASSIC 1700000000)))
        ''/market/BTCUSD'' = None
   \<and> logged (fst (subscribe_to_epic_data init_state ''EURUSD'' OHLC 1 None CLASSIC 1700000000))
      = [(ERROR, ''Cannot subscribe: API not logged in (CST/XST missing). Please login first.'')]"
  by (simp add: subscribe_to_epic_data_def tokens_present_def init_state_def logger_def)

subsection \<open>Unsubscribing\<close>

text \<open>
  Claim C9. A call of \<^verbatim>\<open>unsubscribe_from_epic_data\<close> for \<^verbatim>\<open>OHLC\<close> without a
  resolution raises \<^verbatim>\<open>ValueError\<close>, and the state at the raise is the state at the
  call: the dictionary, the status, the stop event, the thread and every trace are
  unchanged.
\<close>

theorem unsubscribe_ohlc_without_resolution:
  "unsubscribe_from_epic_data e s ep OHLC None bt =
     (s, Some (ValueError ''Resolution must be provided for OHLC data type unsubscription to identify the correct stream.''))"
  by (simp add: unsubscribe_from_epic_data_def)

theorem unsubscribe_ohlc_without_resolution_witness:
  "fst (unsubscribe_from_epic_data e0 connected_one ''BTCUSD'' OHLC None CLASSIC) = connected_one
   \<and> snd (unsubscribe_from_epic_data e0 connected_one ''BTCUSD'' OHLC None CLASSIC) =
       Some (ValueError ''Resolution must be provided for OHLC data type unsubscription to identify the correct stream.'')"
  using unsubscribe_ohlc_without_resolution[where e=e0 and s=connected_one and ep="''BTCUSD''"
      and bt=CLASSIC]
  by simp

text \<open>
  Claim C7, as amended. When the canonical key of an unsubscribe call has no record, the
  call raises nothing, leaves the dictionary as it was and sends no frame. If the
  dictionary is not empty, or the status is \<^verbatim>\<open>DISCONNECTED\<close> or \<^verbatim>\<open>STOPPING\<close>,
  the state at exit is the state at the call with one warning added to the log. If the
  dictionary is empty and the status is \<^verbatim>\<open>CONNECTING\<close> or \<^verbatim>\<open>CONNECTED\<close>, the
  call stops the supervisor: the stop event is set, \<^verbatim>\<open>close\<close> is called once on the
  connection if one is held (and not at all otherwise), the thread and connection fields
  are cleared and the status becomes \<^verbatim>\<open>DISCONNECTED\<close>.
\<close>

theorem unsubscribe_absent_key:
  assumes "canonical_key dt ep res bt = Some k"
    and "map_of (ws_subscriptions s) k = None"
  shows "snd (unsubscribe_from_epic_data e s ep dt res bt) = None
    \<and> ws_subscriptions (fst (unsubscribe_from_epic_data e s ep dt res bt)) = ws_subscriptions s
    \<and> sent (fst (unsubscribe_from_epic_data e s ep dt res bt)) = sent s
    \<and> (ws_subscriptions s \<noteq> [] \<or> ws_status s = DISCONNECTED \<or> ws_status s = STOPPING \<longrightarrow>
         fst (unsubscribe_from_epic_data e s ep dt res bt) =
           logger WARNING ''No active subscription found locally to unsubscribe.'' s)
    \<and> (ws_subscriptions s = [] \<and> (ws_status s = CONNECTING \<or> ws_status s = CONNECTED) \<longrightarrow>
         ws_stop_event (fst (unsubscribe_from_epic_data e s ep dt res bt))
         \<and> ws_status (fst (unsubscribe_from_epic_data e s ep dt res bt)) = DISCONNECTED
         \<and> ws_thread (fst (unsubscribe_from_epic_data e s ep dt res bt)) = None
         \<and> \<not> ws_connection (fst (unsubscribe_from_epic_data e s ep dt res bt))
         \<and> closes (fst (unsubscribe_from_epic_data e s ep dt res bt))
             = (if ws_connection s then Suc (closes s) else closes s))"
proof -
  obtain d p where u: "unsubscribe_from_epic_data e s ep dt res bt =
      (unsubscribe_registered e s k d p ep dt res bt, None)"
    using unsubscribe_key[OF assms(1)] by blast
  show ?thesis
    unfolding u fst_conv snd_conv unsubscribe_registered_def
      unsubscribe_local_absent[OF assms(2)] Let_def
    by (auto simp: stop_websocket_thread_running logger_fields)
qed

theorem unsubscribe_absent_key_witness:
  "canonical_key MARKET ''ETHUSD'' None CLASSIC = Some ''/market/ETHUSD''
   \<and> map_of (ws_subscriptions connected_one) ''/market/ETHUSD'' = None
   \<and> fst (unsubscribe_from_epic_data e0 connected_one ''ETHUSD'' MARKET None CLASSIC) =
       logger WARNING ''No active subscription found locally to unsubscribe.'' connected_one
   \<and> map_of (ws_subscriptions idle_connected) ''/market/ETHUSD'' = None
   \<and> ws_subscriptions idle_connected = [] \<and> ws_status idle_connected = CONNECTED
   \<and> ws_connection idle_connected \<and> closes idle_connected = 0
   \<and> ws_stop_event (fst (unsubscribe_from_epic_data e0 idle_connected ''ETHUSD'' MARKET None CLASSIC))
   \<and> \<not> ws_connection (fst (unsubscribe_from_epic_data e0 idle_connected ''ETHUSD'' MARKET None CLASSIC))
   \<and> closes (fst (unsubscribe_from_epic_data e0 idle_connected ''ETHUSD'' MARKET None CLASSIC)) = 1"
proof -
  have k: "canonical_key MARKET ''ETHUSD'' None CLASSIC = Some ''/market/ETHUSD''" by simp
  have a: "map_of (ws_subscriptions connected_one) ''/market/ETHUSD'' = None"
    by (simp add: concrete_defs)
  have n: "ws_subscriptions connected_one \<noteq> []" by (simp add: concrete_defs)
  have a': "map_of (ws_subscriptions idle_connected) ''/market/ETHUSD'' = None"
    by (simp add: concrete_defs)
  have i: "ws_subscriptions idle_connected = []" "ws_status idle_connected = CONNECTED"
    "ws_connection idle_connected" "closes idle_connected = 0"
    by (simp_all add: concrete_defs)
  from unsubscribe_absent_key[OF k a, where e=e0] n
  have w1: "fst (unsubscribe_from_epic_data e0 connected_one ''ETHUSD'' MARKET None CLASSIC) =
       logger WARNING ''No active subscription found locally to unsubscribe.'' connected_one"
    by simp
  from unsubscribe_absent_key[OF k a', where e=e0] i
  have w2: "ws_stop_event (fst (unsubscribe_from_epic_data e0 idle_connected ''ETHUSD'' MARKET None CLASSIC))
   \<and> \<not> ws_connection (fst (unsubscribe_from_epic_data e0 idle_connected ''ETHUSD'' MARKET None CLASSIC))
   \<and> closes (fst (unsubscribe_from_epic_data e0 idle_connected ''ETHUSD'' MARKET None CLASSIC)) = 1"
    by simp
  from k a a' i w1 w2 show ?thesis by simp
qed

text \<open>
  Claim C7 as stated fails on a connected supervisor whose dictionary is empty:
  unsubscribing \<^verbatim>\<open>BTCUSD\<close>, which has no record, sets the stop event, closes the
  connection and takes the status from \<^verbatim>\<open>CONNECTED\<close> to \<^verbatim>\<open>DISCONNECTED\<close>.
\<close>

theorem unsubscribe_absent_key_counterexample:
  "map_of (ws_subscriptions idle_connected) ''/market/BTCUSD'' = None
   \<and> ws_status idle_connected = CONNECTED
   \<and> \<not> ws_stop_event idle_connected
   \<and> closes idle_connected = 0
   \<and> ws_status (fst (unsubscribe_from_epic_data e0 idle_connected ''BTCUSD'' MARKET None CLASSIC)) = DISCONNECTED
   \<and> ws_stop_event (fst (unsubscribe_from_epic_data e0 idle_connected ''BTCUSD'' MARKET None CLASSIC))
   \<and> closes (fst (unsubscribe_from_epic_data e0 idle_connected ''BTCUSD'' MARKET None CLASSIC)) = 1
   \<and> ws_thread (fst (unsubscribe_from_epic_data e0 idle_connected ''BTCUSD'' MARKET None CLASSIC)) = None"
  by (simp add: concrete_defs unsubscribe_from_epic_data_def unsubscribe_registered_def
      unsubscribe_local_def stop_websocket_thread_def market_key_def dict_pop_def logger_def
      ws_close_def Let_def)

text \<open>
  What the last lines of \<^verbatim>\<open>unsubscribe_from_epic_data\<close> do when the call removes the
  last record while the status is \<^verbatim>\<open>CONNECTING\<close> or \<^verbatim>\<open>CONNECTED\<close>: the dictionary
  is empty, the stop event is set, the connection is closed if one is held, the thread
  and connection fields are cleared and the status is \<^verbatim>\<open>DISCONNECTED\<close>.
\<close>

lemma unsubscribe_last_record_while_running:
  assumes "canonical_key dt ep res bt = Some k"
    and "map_of (ws_subscriptions s) k = Some i"
    and "dict_pop k (ws_subscriptions s) = []"
    and "ws_status s = CONNECTING \<or> ws_status s = CONNECTED"
  shows "ws_subscriptions (fst (unsubscribe_from_epic_data e s ep dt res bt)) = []
    \<and> ws_stop_event (fst (unsubscribe_from_epic_data e s ep dt res bt))
    \<and> ws_status (fst (unsubscribe_from_epic_data e s ep dt res bt)) = DISCONNECTED
    \<and> ws_thread (fst (unsubscribe_from_epic_data e s ep dt res bt)) = None
    \<and> \<not> ws_connection (fst (unsubscribe_from_epic_data e s ep dt res bt))"
proof -
  obtain d p where u: "unsubscribe_from_epic_data e s ep dt res bt =
      (unsubscribe_registered e s k d p ep dt res bt, None)"
    using unsubscribe_key[OF assms(1)] by blast
  note loc = unsubscribe_local_present[OF assms(2), of e d p ep dt res bt, unfolded assms(3)]
  from assms(4) have ne: "ws_status s \<noteq> DISCONNECTED" "ws_status s \<noteq> STOPPING" by auto
  have r: "unsubscribe_registered e s k d p ep dt res bt =
      stop_websocket_thread e
        (logger INFO ''No active WebSocket subscriptions remaining. Stopping WebSocket thread.''
           (unsubscribe_local e s k d p ep dt res bt))"
    using ne by (simp add: unsubscribe_registered_def Let_def loc)
  have st: "ws_status (logger INFO ''No active WebSocket subscriptions remaining. Stopping WebSocket thread.''
           (unsubscribe_local e s k d p ep dt res bt)) \<noteq> DISCONNECTED"
    using ne by (simp add: logger_fields loc)
  show ?thesis
    unfolding u fst_conv r
    by (simp add: stop_websocket_thread_running(1-5)[OF st] logger_fields loc)
qed

text \<open>
  Claim C8 fails on the code. \<open>dropped_one\<close> is the state \<^verbatim>\<open>_ws_on_close\<close> leaves after
  a dropped connection: the status is \<^verbatim>\<open>DISCONNECTED\<close>, the stop event is clear and the
  supervisor thread is alive, still inside the loop of \<^verbatim>\<open>_ws_run\<close>. Unsubscribing the
  only record there empties the dictionary, but the test of the status before
  \<^verbatim>\<open>_stop_websocket_thread\<close> takes \<^verbatim>\<open>DISCONNECTED\<close> for a stopped supervisor: the
  stop event stays clear, the thread stays alive, and the next pass of the loop opens
  another connection and goes on. In the same state
  \<^verbatim>\<open>stop_all_websocket_subscriptions\<close>, whose call of \<^verbatim>\<open>_stop_websocket_thread\<close>
  looks at the thread as well, does stop the supervisor.
\<close>

theorem unsubscribe_last_record_after_close:
  "map_of (ws_subscriptions dropped_one) ''/market/BTCUSD'' = Some btc_record
   \<and> ws_status dropped_one = DISCONNECTED
   \<and> ws_thread dropped_one = Some True
   \<and> ws_subscriptions (fst (unsubscribe_from_epic_data e0 dropped_one ''BTCUSD'' MARKET None CLASSIC)) = []
   \<and> \<not> ws_stop_event (fst (unsubscribe_from_epic_data e0 dropped_one ''BTCUSD'' MARKET None CLASSIC))
   \<and> ws_thread (fst (unsubscribe_from_epic_data e0 dropped_one ''BTCUSD'' MARKET None CLASSIC)) = Some True
   \<and> connects (fst (unsubscribe_from_epic_data e0 dropped_one ''BTCUSD'' MARKET None CLASSIC)) = []
   \<and> connects (fst (ws_iteration no_fmt refused
        (fst (unsubscribe_from_epic_data e0 dropped_one ''BTCUSD'' MARKET None CLASSIC))))
      = [''wss://api-streaming-capital.backend-capital.com/connect?cst=CST&x-security-token=XST'']
   \<and> snd (ws_iteration no_fmt refused
        (fst (unsubscribe_from_epic_data e0 dropped_one ''BTCUSD'' MARKET None CLASSIC)))
   \<and> ws_stop_event (stop_all_websocket_subscriptions e0 dropped_one)
   \<and> ws_thread (stop_all_websocket_subscriptions e0 dropped_one) = None
   \<and> ws_status (stop_all_websocket_subscriptions e0 dropped_one) = DISCONNECTED"
  by (simp add: concrete_defs unsubscribe_from_epic_data_def unsubscribe_registered_def
      unsubscribe_local_def market_key_def dict_pop_def logger_def Let_def
      ws_iteration_def run_connection_def get_ws_url_def ws_base_url_def ws_on_error_def
      ws_on_close_def
      ws_max_reconnect_attempts_def reconnect_delay_def ws_initial_reconnect_delay_def
      ws_max_reconnect_delay_def backoff_wait.simps
      stop_all_websocket_subscriptions_def stop_websocket_thread_def)

subsection \<open>Reconnecting\<close>

text \<open>
  Claim C1. Start the loop of \<^verbatim>\<open>_ws_run\<close> with no attempt counted and the stop event
  clear, and let eleven connection attempts in a row fail. Then the loop waits ten times,
  each time for the whole delay, and the delay before the \<open>n\<close>-th reconnect is
  \<open>min (5 * 2 ^ (n - 1)) 60\<close>: 5, 10, 20, 40 and then six times 60. After the eleventh
  failure the loop ends, whatever further attempts the world would offer: eleven
  connections have been opened in all, the stop event is set, the connection is released
  and the status is \<^verbatim>\<open>DISCONNECTED\<close>.
\<close>

theorem reconnect_backoff_schedule:
  assumes "ws_reconnect_attempts s = 0" and "\<not> ws_stop_event s"
    and "length fs = 11" and "\<forall>a\<in>set fs. failed_attempt s a"
  shows "\<exists>s'. ws_run fmt (fs @ rest) s = Some s'
     \<and> backoffs s' = backoffs s @ map (\<lambda>d. (d, d)) [5, 10, 20, 40, 60, 60, 60, 60, 60, 60]
     \<and> map fst (drop (length (backoffs s)) (backoffs s'))
         = map (\<lambda>n. min (5 * 2 ^ (n - 1)) 60) [1 ..< 11]
     \<and> length (connects s') = length (connects s) + 11
     \<and> ws_stop_event s' \<and> ws_status s' = DISCONNECTED \<and> \<not> ws_connection s'"
proof -
  let ?s0 = "s\<lparr>ws_status := CONNECTING\<rparr>"
  have ne: "fs \<noteq> []" using assms(3) by auto
  have bl: "butlast fs = take 10 fs" using assms(3) by (simp add: butlast_conv_take)
  define a where "a = last fs"
  have fs: "fs = take 10 fs @ [a]"
    using append_butlast_last_id[OF ne] unfolding bl a_def by simp
  have a: "a \<in> set fs" using ne by (simp add: a_def)
  have fa: "\<And>b. failed_attempt s b \<Longrightarrow> failed_attempt ?s0 b"
    by (simp add: failed_attempt_def tokens_present_def)
  have p1: "\<forall>b\<in>set (take 10 fs). failed_attempt ?s0 b"
    using assms(4) fa by (meson in_set_takeD)
  have p2: "\<not> ws_stop_event ?s0" using assms(2) by simp
  have p3: "ws_reconnect_attempts ?s0 + length (take 10 fs) \<le> ws_max_reconnect_attempts"
    using assms(1,3) by (simp add: ws_max_reconnect_attempts_def)
  from failed_passes[OF p1 p2 p3, of fmt "[a] @ rest"]
  obtain s10 where s10: "ws_loop fmt (take 10 fs @ [a] @ rest) ?s0 = ws_loop fmt ([a] @ rest) s10"
    "\<not> ws_stop_event s10"
    "ws_reconnect_attempts s10 = ws_reconnect_attempts ?s0 + length (take 10 fs)"
    "backoffs s10 = backoffs ?s0
          @ map (\<lambda>k. (reconnect_delay k, reconnect_delay k))
              [ws_reconnect_attempts ?s0 ..< ws_reconnect_attempts ?s0 + length (take 10 fs)]"
    "length (connects s10) = length (connects ?s0) + length (take 10 fs)"
    "\<forall>b. failed_attempt ?s0 b \<longrightarrow> failed_attempt s10 b"
    by blast
  have len: "length (take 10 fs) = 10" using assms(3) by simp
  have at: "ws_reconnect_attempts s10 = ws_max_reconnect_attempts"
    using s10(3) assms(1) len by (simp add: ws_max_reconnect_attempts_def)
  have fa10: "failed_attempt s10 a" using s10(6) fa assms(4) a by blast
  from exhausted_pass[OF fa10 s10(2) at, of fmt]
  obtain s11 where s11: "ws_iteration fmt a s10 = (s11, False)" "ws_stop_event s11"
    "backoffs s11 = backoffs s10" "length (connects s11) = Suc (length (connects s10))"
    "ws_status s11 \<noteq> STOPPING"
    by blast
  have loop: "ws_loop fmt (fs @ rest) ?s0 = Some s11"
    using s10(1,2) s11(1) by (subst fs) simp
  have m: "map (\<lambda>k. (reconnect_delay k, reconnect_delay k)) [0 ..< 10]
      = map (\<lambda>d. (d, d)) (map reconnect_delay [0 ..< 10])"
    by (simp only: map_map comp_def)
  have b: "backoffs s11 = backoffs s @ map (\<lambda>d. (d, d)) [5, 10, 20, 40, 60, 60, 60, 60, 60, 60]"
    using s11(3) s10(4) assms(1) len unfolding reconnect_delays[symmetric] m[symmetric]
    by simp
  have run: "ws_run fmt (fs @ rest) s = Some (ws_run_exit s11)"
    by (simp add: ws_run_def loop)
  have sch: "map fst (drop (length (backoffs s)) (backoffs (ws_run_exit s11)))
      = map (\<lambda>n. min (5 * 2 ^ (n - 1)) 60) [1 ..< 11]"
    unfolding schedule_formula by (simp add: ws_run_exit_fields b)
  have rest: "backoffs (ws_run_exit s11)
        = backoffs s @ map (\<lambda>d. (d, d)) [5, 10, 20, 40, 60, 60, 60, 60, 60, 60]
     \<and> length (connects (ws_run_exit s11)) = length (connects s) + 11
     \<and> ws_stop_event (ws_run_exit s11) \<and> ws_status (ws_run_exit s11) = DISCONNECTED
     \<and> \<not> ws_connection (ws_run_exit s11)"
    using b s11 s10(5) len by (simp add: ws_run_exit_fields)
  from run sch rest show ?thesis by blast
qed

text \<open>An instance: eleven refused connections after a login, and a twelfth on offer.\<close>

theorem reconnect_backoff_schedule_witness:
  "ws_reconnect_attempts logged_in = 0 \<and> \<not> ws_stop_event logged_in
   \<and> length (replicate 11 refused) = 11 \<and> failed_attempt logged_in refused
   \<and> map_option backoffs (ws_run no_fmt (replicate 11 refused @ [refused]) logged_in)
       = Some [(5, 5), (10, 10), (20, 20), (40, 40), (60, 60), (60, 60), (60, 60), (60, 60),
               (60, 60), (60, 60)]
   \<and> map_option ws_status (ws_run no_fmt (replicate 11 refused @ [refused]) logged_in)
       = Some DISCONNECTED
   \<and> map_option (length \<circ> connects) (ws_run no_fmt (replicate 11 refused @ [refused]) logged_in)
       = Some 11"
proof -
  have a: "ws_reconnect_attempts logged_in = 0" by (simp add: concrete_defs)
  have b: "\<not> ws_stop_event logged_in" by (simp add: concrete_defs)
  have c: "length (replicate 11 refused) = 11" by simp
  have f: "failed_attempt logged_in refused"
    by (simp add: failed_attempt_def tokens_present_def concrete_defs)
  have d: "\<forall>a\<in>set (replicate 11 refused). failed_attempt logged_in a" using f by simp
  have e: "backoffs logged_in = []" "connects logged_in = []" by (simp_all add: concrete_defs)
  from reconnect_backoff_schedule[OF a b c d, of no_fmt "[refused]"] a b c f e
  show ?thesis by auto
qed

text \<open>
  Claim C3. A frame whose \<^verbatim>\<open>errorCode\<close> is the authentication-failure code makes
  \<^verbatim>\<open>_ws_on_message\<close> set the stop event and close the connection if there is one,
  without invoking a callback. When such a frame is among the callbacks of a connection,
  \<^verbatim>\<open>_ws_run\<close> ends with that pass of its loop, whatever the number of attempts counted
  so far and whatever attempts the world would offer next: no backoff wait is made, no
  connection beyond the current one is opened, and the status is \<^verbatim>\<open>DISCONNECTED\<close>.
\<close>

theorem auth_failure_is_fatal:
  assumes "dict_get msg ''errorCode'' = JStr auth_failure_code"
  shows "ws_stop_event (ws_on_message fmt (Loaded (JObj msg)) s)
    \<and> closes (ws_on_message fmt (Loaded (JObj msg)) s)
        = (if ws_connection s then Suc (closes s) else closes s)
    \<and> calls (ws_on_message fmt (Loaded (JObj msg)) s) = calls s
    \<and> backoffs (ws_on_message fmt (Loaded (JObj msg)) s) = backoffs s
    \<and> connects (ws_on_message fmt (Loaded (JObj msg)) s) = connects s
    \<and> (OnMessage (Loaded (JObj msg)) \<in> set (session a) \<longrightarrow>
         (\<exists>s'. ws_run fmt (a # as) s = Some s' \<and> ws_stop_event s' \<and> \<not> ws_connection s'
            \<and> ws_status s' = DISCONNECTED \<and> backoffs s' = backoffs s
            \<and> length (connects s') \<le> Suc (length (connects s))))"
proof -
  have h: "ws_stop_event (ws_on_message fmt (Loaded (JObj msg)) s)
    \<and> closes (ws_on_message fmt (Loaded (JObj msg)) s)
        = (if ws_connection s then Suc (closes s) else closes s)
    \<and> calls (ws_on_message fmt (Loaded (JObj msg)) s) = calls s
    \<and> backoffs (ws_on_message fmt (Loaded (JObj msg)) s) = backoffs s
    \<and> connects (ws_on_message fmt (Loaded (JObj msg)) s) = connects s"
    by (simp add: auth_failure_message[OF assms] Let_def ws_close_def logger_def)
  have l: "\<exists>s'. ws_run fmt (a # as) s = Some s' \<and> ws_stop_event s' \<and> \<not> ws_connection s'
            \<and> ws_status s' = DISCONNECTED \<and> backoffs s' = backoffs s
            \<and> length (connects s') \<le> Suc (length (connects s))"
    if m: "OnMessage (Loaded (JObj msg)) \<in> set (session a)"
  proof -
    let ?s0 = "s\<lparr>ws_status := CONNECTING\<rparr>"
    have d: "\<And>s. ws_stop_event (deliver fmt (OnMessage (Loaded (JObj msg))) s)"
      by (rule auth_failure_delivered[OF assms])
    have ns: "ws_status ?s0 \<noteq> STOPPING" by simp
    note it = ws_iteration_fatal[OF m d ns]
    show ?thesis
    proof (cases "ws_stop_event s")
      case True
      then have "ws_run fmt (a # as) s = Some (ws_run_exit ?s0)"
        by (simp add: ws_run_def)
      with True show ?thesis by (simp add: ws_run_exit_fields)
    next
      case False
      obtain s1 b where p: "ws_iteration fmt a ?s0 = (s1, b)"
        by (cases "ws_iteration fmt a ?s0") auto
      with it have s1: "b = False" "ws_stop_event s1" "backoffs s1 = backoffs s"
        "length (connects s1) \<le> Suc (length (connects s))" "ws_status s1 \<noteq> STOPPING"
        by simp_all
      have "ws_run fmt (a # as) s = Some (ws_run_exit s1)"
        using False p s1(1) by (simp add: ws_run_def)
      with s1 show ?thesis by (simp add: ws_run_exit_fields)
    qed
  qed
  from h l show ?thesis by blast
qed

text \<open>
  An instance: the frame arrives on a connection that has just opened, with all ten
  attempts still available.
\<close>

theorem auth_failure_is_fatal_witness:
  "dict_get auth_failure_frame ''errorCode'' = JStr auth_failure_code
   \<and> OnMessage (Loaded (JObj auth_failure_frame)) \<in> set (session auth_rejected)
   \<and> ws_stop_event (ws_on_message no_fmt (Loaded (JObj auth_failure_frame)) connected_one)
   \<and> closes (ws_on_message no_fmt (Loaded (JObj auth_failure_frame)) connected_one) = 1
   \<and> map_option backoffs (ws_run no_fmt [auth_rejected, refused] connected_one) = Some []
   \<and> map_option ws_status (ws_run no_fmt [auth_rejected, refused] connected_one) = Some DISCONNECTED
   \<and> map_option ws_stop_event (ws_run no_fmt [auth_rejected, refused] connected_one) = Some True"
proof -
  have a: "dict_get auth_failure_frame ''errorCode'' = JStr auth_failure_code"
    by (simp add: dict_get_def auth_failure_frame_def auth_failure_code_def)
  have m: "OnMessage (Loaded (JObj auth_failure_frame)) \<in> set (session auth_rejected)"
    by (simp add: auth_rejected_def)
  have c: "ws_connection connected_one" "closes connected_one = 0" "backoffs connected_one = []"
    by (simp_all add: concrete_defs)
  from auth_failure_is_fatal[OF a, of no_fmt connected_one auth_rejected "[refused]"] a m c
  show ?thesis by auto
qed

subsection \<open>Resubscribing on open\<close>

text \<open>
  Claim C2. When \<^verbatim>\<open>_ws_on_open\<close> runs with both tokens present, the frames it hands
  to \<^verbatim>\<open>send\<close> are, in the order of the snapshot, one frame for each record that is
  active and complete. The frame of a \<^verbatim>\<open>MARKET\<close> record has the destination
  \<^verbatim>\<open>marketData.subscribe\<close> and the payload \<^verbatim>\<open>epics = [epic]\<close>; the frame of an
  \<^verbatim>\<open>OHLC\<close> record has the destination \<^verbatim>\<open>OHLCMarketData.subscribe\<close> and carries the
  record's resolution and bar type. An active \<^verbatim>\<open>OHLC\<close> record without a resolution
  or without a bar type gets no frame and an error in the log, and the records after it
  are processed all the same.
\<close>

theorem on_open_resubscribes:
  assumes "tokens_present s"
  shows "sent (ws_on_open now s) =
      sent s @ map (\<lambda>item. resubscribe_frame s (now (fst item)) (snd (snd item)))
                 (filter (\<lambda>item. resubscribable (snd (snd item)))
                    (enumerate 0 (ws_subscriptions s)))
    \<and> logged (ws_on_open now s) =
        logged s @ (INFO, ''WebSocket connection opened successfully.'')
          # (if ws_subscriptions s = []
             then [(INFO, ''No active subscriptions to process on WebSocket open/reconnect.'')]
             else (INFO, ''Processing existing subscriptions on WebSocket (re)open.'')
                  # map (\<lambda>item. resubscribe_log (snd (snd item)))
                      (enumerate 0 (ws_subscriptions s)))
    \<and> (\<forall>t i. data_type i = MARKET \<longrightarrow>
          destination (resubscribe_frame s t i) = ''marketData.subscribe''
          \<and> payload (resubscribe_frame s t i)
              = \<lparr>epics = [epic i], resolutions = None, type_value = None, types = None\<rparr>)
    \<and> (\<forall>t i r b. data_type i = OHLC \<and> resolution i = Some r \<and> bar_type i = Some b \<longrightarrow>
          destination (resubscribe_frame s t i) = ''OHLCMarketData.subscribe''
          \<and> payload (resubscribe_frame s t i)
              = \<lparr>epics = [epic i], resolutions = Some [resolution_value r],
                 type_value = Some (bar_type_value b), types = None\<rparr>)
    \<and> (\<forall>i. active i \<and> data_type i = OHLC \<and> (resolution i = None \<or> bar_type i = None) \<longrightarrow>
          \<not> resubscribable i
          \<and> resubscribe_log i
              = (ERROR, ''Cannot resubscribe to OHLC: Resolution or bar_type missing. Skipping.''))"
proof -
  have a: "sent (ws_on_open now s) =
      sent s @ map (\<lambda>item. resubscribe_frame s (now (fst item)) (snd (snd item)))
                 (filter (\<lambda>item. resubscribable (snd (snd item)))
                    (enumerate 0 (ws_subscriptions s)))"
    by (simp add: ws_on_open_tokens[OF assms])
  have b: "logged (ws_on_open now s) =
        logged s @ (INFO, ''WebSocket connection opened successfully.'')
          # (if ws_subscriptions s = []
             then [(INFO, ''No active subscriptions to process on WebSocket open/reconnect.'')]
             else (INFO, ''Processing existing subscriptions on WebSocket (re)open.'')
                  # map (\<lambda>item. resubscribe_log (snd (snd item)))
                      (enumerate 0 (ws_subscriptions s)))"
    by (simp add: ws_on_open_tokens[OF assms])
  have c: "\<forall>t i. data_type i = MARKET \<longrightarrow>
          destination (resubscribe_frame s t i) = ''marketData.subscribe''
          \<and> payload (resubscribe_frame s t i)
              = \<lparr>epics = [epic i], resolutions = None, type_value = None, types = None\<rparr>"
    by (simp add: resubscribe_frame_def)
  have d: "\<forall>t i r b. data_type i = OHLC \<and> resolution i = Some r \<and> bar_type i = Some b \<longrightarrow>
          destination (resubscribe_frame s t i) = ''OHLCMarketData.subscribe''
          \<and> payload (resubscribe_frame s t i)
              = \<lparr>epics = [epic i], resolutions = Some [resolution_value r],
                 type_value = Some (bar_type_value b), types = None\<rparr>"
    by (simp add: resubscribe_frame_def)
  have e: "\<forall>i. active i \<and> data_type i = OHLC \<and> (resolution i = None \<or> bar_type i = None) \<longrightarrow>
          \<not> resubscribable i
          \<and> resubscribe_log i
              = (ERROR, ''Cannot resubscribe to OHLC: Resolution or bar_type missing. Skipping.'')"
    by (auto simp: resubscribable_def resubscribe_log_def)
  from a b c d e show ?thesis by blast
qed

text \<open>
  An instance: of three records, the second an \<^verbatim>\<open>OHLC\<close> record without a resolution,
  the first and the third are resubscribed.
\<close>

theorem on_open_resubscribes_witness:
  "tokens_present three_records
   \<and> sent (ws_on_open clock0 three_records) =
       [\<lparr>destination = ''marketData.subscribe'',
         correlationId = ''reopen-BTCUSD-MARKET-1700000000'',
         frame_cst = Some ''CST'', securityToken = Some ''XST'',
         payload = \<lparr>epics = [''BTCUSD''], resolutions = None, type_value = None, types = None\<rparr>\<rparr>,
        \<lparr>destination = ''OHLCMarketData.subscribe'',
         correlationId = ''reopen-EURUSD-OHLC-1700000002'',
         frame_cst = Some ''CST'', securityToken = Some ''XST'',
         payload = \<lparr>epics = [''EURUSD''], resolutions = Some [''MINUTE_5''],
                    type_value = Some ''classic'', types = None\<rparr>\<rparr>]"
proof -
  have t: "tokens_present three_records"
    by (simp add: tokens_present_def instance_defs concrete_defs)
  from on_open_resubscribes[OF t, of clock0]
  have "sent (ws_on_open clock0 three_records) =
      sent three_records @ map (\<lambda>item. resubscribe_frame three_records (clock0 (fst item)) (snd (snd item)))
                 (filter (\<lambda>item. resubscribable (snd (snd item)))
                    (enumerate 0 (ws_subscriptions three_records)))"
    by blast
  then have "sent (ws_on_open clock0 three_records) =
       [\<lparr>destination = ''marketData.subscribe'',
         correlationId = ''reopen-BTCUSD-MARKET-1700000000'',
         frame_cst = Some ''CST'', securityToken = Some ''XST'',
         payload = \<lparr>epics = [''BTCUSD''], resolutions = None, type_value = None, types = None\<rparr>\<rparr>,
        \<lparr>destination = ''OHLCMarketData.subscribe'',
         correlationId = ''reopen-EURUSD-OHLC-1700000002'',
         frame_cst = Some ''CST'', securityToken = Some ''XST'',
         payload = \<lparr>epics = [''EURUSD''], resolutions = Some [''MINUTE_5''],
                    type_value = Some ''classic'', types = None\<rparr>\<rparr>]"
    by (simp add: instance_defs concrete_defs resubscribable_def resubscribe_frame_def
        str_int_def str_nat.simps)
  with t show ?thesis by simp
qed

subsection \<open>Keys on both sides\<close>

text \<open>
  Claim C4. For a frame whose payload has the symbol as \<^verbatim>\<open>epic\<close>, the key that
  \<^verbatim>\<open>_ws_on_message\<close> derives for the destination \<^verbatim>\<open>quote\<close> is
  \<^verbatim>\<open>"/market/" + symbol\<close>, and that is the key under which a \<^verbatim>\<open>MARKET\<close>
  subscription to the symbol stores its record. If the payload also has the resolution
  and the bar type of an \<^verbatim>\<open>OHLC\<close> subscription as \<^verbatim>\<open>resolution\<close> and
  \<^verbatim>\<open>type\<close>, the key derived for the destination \<^verbatim>\<open>ohlc.event\<close> is
  \<^verbatim>\<open>"/ohlc/" + symbol + "/" + resolution + "/" + barShape\<close>, the key under which that
  subscription stores its record.
\<close>

theorem stream_keys_agree:
  assumes "tokens_present s" and "map_of pl ''epic'' = Some (JStr ep)"
  shows "stream_destination_key_for_lookup fmt (JStr ''quote'') pl = Some (''/market/'' @ ep)
    \<and> map_of (ws_subscriptions (fst (subscribe_to_epic_data s ep MARKET cb res bt now)))
         (''/market/'' @ ep)
       = Some \<lparr>callback = Some cb, epic = ep, data_type = MARKET, resolution = res,
               bar_type = Some bt, active = True\<rparr>
    \<and> (map_of pl ''resolution'' = Some (JStr (resolution_value r))
         \<and> map_of pl ''type'' = Some (JStr (bar_type_value bt)) \<longrightarrow>
        stream_destination_key_for_lookup fmt (JStr ''ohlc.event'') pl
          = Some (''/ohlc/'' @ ep @ ''/'' @ resolution_value r @ ''/'' @ bar_type_value bt)
        \<and> map_of (ws_subscriptions (fst (subscribe_to_epic_data s ep OHLC cb (Some r) bt now)))
             (''/ohlc/'' @ ep @ ''/'' @ resolution_value r @ ''/'' @ bar_type_value bt)
           = Some \<lparr>callback = Some cb, epic = ep, data_type = OHLC, resolution = Some r,
                   bar_type = Some bt, active = True\<rparr>)"
proof -
  have t: "truthy_str (cst s)" "truthy_str (x_security_token s)"
    using assms(1) by (simp_all add: tokens_present_def)
  have m: "stream_destination_key_for_lookup fmt (JStr ''quote'') pl = Some (''/market/'' @ ep)"
    using assms(2) by (simp add: stream_destination_key_for_lookup_def dict_get_def)
  have sm: "map_of (ws_subscriptions (fst (subscribe_to_epic_data s ep MARKET cb res bt now)))
         (''/market/'' @ ep)
       = Some \<lparr>callback = Some cb, epic = ep, data_type = MARKET, resolution = res,
               bar_type = Some bt, active = True\<rparr>"
    using t by (simp add: subscribe_to_epic_data_def subscribe_registered_subs map_of_dict_set
        market_key_def)
  have so: "map_of (ws_subscriptions (fst (subscribe_to_epic_data s ep OHLC cb (Some r) bt now)))
             (''/ohlc/'' @ ep @ ''/'' @ resolution_value r @ ''/'' @ bar_type_value bt)
           = Some \<lparr>callback = Some cb, epic = ep, data_type = OHLC, resolution = Some r,
                   bar_type = Some bt, active = True\<rparr>"
    using t by (simp add: subscribe_to_epic_data_def subscribe_registered_subs map_of_dict_set
        ohlc_key_def)
  have o: "map_of pl ''resolution'' = Some (JStr (resolution_value r))
         \<and> map_of pl ''type'' = Some (JStr (bar_type_value bt)) \<longrightarrow>
        stream_destination_key_for_lookup fmt (JStr ''ohlc.event'') pl
          = Some (''/ohlc/'' @ ep @ ''/'' @ resolution_value r @ ''/'' @ bar_type_value bt)"
    using assms(2)
    by (simp add: stream_destination_key_for_lookup_def dict_get_def resolution_value_nonempty)
  from m sm so o show ?thesis by blast
qed

text \<open>An instance: five-minute classic bars of \<^verbatim>\<open>EURUSD\<close>.\<close>

theorem stream_keys_agree_witness:
  "tokens_present logged_in \<and> map_of eur_payload ''epic'' = Some (JStr ''EURUSD'')
   \<and> map_of eur_payload ''resolution'' = Some (JStr (resolution_value MINUTE_5))
   \<and> map_of eur_payload ''type'' = Some (JStr (bar_type_value CLASSIC))
   \<and> stream_destination_key_for_lookup no_fmt (JStr ''ohlc.event'') eur_payload
       = Some ''/ohlc/EURUSD/MINUTE_5/classic''
   \<and> map_of (ws_subscriptions
        (fst (subscribe_to_epic_data logged_in ''EURUSD'' OHLC 1 (Some MINUTE_5) CLASSIC 1700000000)))
        ''/ohlc/EURUSD/MINUTE_5/classic''
       = Some eur_record"
proof -
  have t: "tokens_present logged_in" by (simp add: tokens_present_def concrete_defs)
  have p: "map_of eur_payload ''epic'' = Some (JStr ''EURUSD'')"
    "map_of eur_payload ''resolution'' = Some (JStr (resolution_value MINUTE_5))"
    "map_of eur_payload ''type'' = Some (JStr (bar_type_value CLASSIC))"
    by (simp_all add: eur_payload_def)
  from stream_keys_agree[OF t p(1), where r=MINUTE_5 and bt=CLASSIC and fmt=no_fmt and cb=1
      and now=1700000000] t p
  show ?thesis by (simp add: eur_record_def)
qed




subsection \<open>The active flag\<close>

text \<open>
  Claim C10. In every state reached from the one \<^verbatim>\<open>__init__\<close> leaves by public
  operations, token changes and steps of the supervisor thread, every record of the
  dictionary has its active flag set, so a lookup never finds an inactive record and the
  branches for inactive records in \<^verbatim>\<open>_ws_on_message\<close> and \<^verbatim>\<open>_ws_on_open\<close> are
  never taken. The steps that change the dictionary do so as follows: a subscribe call
  adds nothing but a record with the flag set, an unsubscribe call only removes entries,
  and \<^verbatim>\<open>stop_all_websocket_subscriptions\<close> leaves the dictionary empty.
\<close>

theorem registry_records_active:
  "(\<forall>p\<in>set (ws_subscriptions (fold (perform fmt) ops init_state)). active (snd p))
   \<and> (\<forall>k i. map_of (ws_subscriptions (fold (perform fmt) ops init_state)) k = Some i \<longrightarrow> active i)
   \<and> (\<forall>p\<in>set (ws_subscriptions (fst (subscribe_to_epic_data s ep dt cb res bt now))).
         p \<in> set (ws_subscriptions s) \<or> active (snd p))
   \<and> set (ws_subscriptions (fst (unsubscribe_from_epic_data e s ep dt res bt)))
        \<subseteq> set (ws_subscriptions s)
   \<and> ws_subscriptions (stop_all_websocket_subscriptions e s) = []"
proof -
  have a: "\<forall>p\<in>set (ws_subscriptions (fold (perform fmt) ops init_state)). active (snd p)"
    using fold_perform_all_active[OF init_all_active, of fmt ops] by (simp add: all_active_def)
  have b: "\<forall>k i. map_of (ws_subscriptions (fold (perform fmt) ops init_state)) k = Some i
      \<longrightarrow> active i"
    using a by (metis map_of_SomeD snd_conv)
  have c: "\<forall>p\<in>set (ws_subscriptions (fst (subscribe_to_epic_data s ep dt cb res bt now))).
         p \<in> set (ws_subscriptions s) \<or> active (snd p)"
    using subscribe_new_active[of _ s ep dt cb res bt now] by blast
  from a b c unsubscribe_subs stop_all_subs show ?thesis by blast
qed

text \<open>An instance: two subscriptions and one unsubscription after a login.\<close>

theorem registry_records_active_witness:
  "ws_subscriptions (fold (perform no_fmt) demo_ops init_state)
     = [(''/ohlc/EURUSD/MINUTE_5/classic'', eur_record)]
   \<and> active eur_record"
proof -
  have s: "ws_subscriptions (fold (perform no_fmt) demo_ops init_state)
     = [(''/ohlc/EURUSD/MINUTE_5/classic'', eur_record)]"
    by (simp add: demo_ops_def init_state_def e0_def eur_record_def
        subscribe_to_epic_data_def subscribe_registered_def start_websocket_thread_def
        unsubscribe_from_epic_data_def unsubscribe_registered_def unsubscribe_local_def
        market_key_def ohlc_key_def dict_pop_def logger_def Let_def)
  from registry_records_active[of no_fmt demo_ops] s show ?thesis by simp
qed

end
